theory Spec2Isabelle
  imports Complex_Main "HOL-Library.Multiset"
begin

section \<open>Data model of api_apply_classifier_single_node.py\<close>

text \<open>
  The script works on the JSON object of the detection API: a dictionary with the list
  \<open>images\<close>, each image a dictionary with \<open>file\<close> (the field \<open>image_file\<close> here) and
  \<open>detections\<close>, each detection a dictionary with \<open>category\<close>, \<open>conf\<close>, \<open>bbox\<close> (the
  list \<open>[x_min, y_min, width, height]\<close> in normalised coordinates) and, once classified,
  \<open>classifications\<close> (a list of \<open>[class key, score]\<close> pairs). An optional key is an
  \<open>option\<close>: \<open>None\<close> is the absent key. The fields a well-formed object always has are
  plain record fields.

  Numbers are \<open>real\<close> (no NaN, no infinity) and \<open>int\<close>. The crop rectangle is modelled
  twice: in exact arithmetic (\<open>crop_box\<close>, which the loops use and which evaluates at the
  inputs of the scenarios, where float64 gives the same numbers), and in rounded
  arithmetic with the cast to int64 (\<open>crop_box_fl\<close>), on which the general statements
  about the crop are proved. A character stands for a code point below 256.
\<close>

record detection =
  category :: string
  conf :: real
  bbox :: "real \<times> real \<times> real \<times> real"
  classifications :: "(string \<times> real) list option"

record image_description =
  image_file :: string
  detections :: "detection list"

record json_object =
  classification_categories :: "(string \<times> string) list option"
  images :: "image_description list"

text \<open>
  A decoded image: the pixel array (rows of pixels, already scaled to [0,1]) with the
  height and width read from its shape.
\<close>

record 'px image_data =
  image_height :: nat
  image_width :: nat
  pixel_rows :: "'px list list"

text \<open>
  The keyword arguments of \<open>classify_boxes\<close>, and the module's defaults
  (lines 22 to 36 of the script).
\<close>

record settings =
  confidence_threshold :: real
  detection_category_whitelist :: "string list"
  padding_factor :: real
  num_annotated_classes :: int

definition DEFAULT_CONFIDENCE_THRESHOLD :: real where
  "DEFAULT_CONFIDENCE_THRESHOLD = 85 / 100"

definition NUM_ANNOTATED_CLASSES :: int where
  "NUM_ANNOTATED_CLASSES = 3"

definition PADDING_FACTOR :: real where
  "PADDING_FACTOR = 16 / 10"

definition DETECTION_CATEGORY_WHITELIST :: "string list" where
  "DETECTION_CATEGORY_WHITELIST = [''1'']"

definition default_settings :: settings where
  "default_settings =
     \<lparr>confidence_threshold = DEFAULT_CONFIDENCE_THRESHOLD,
      detection_category_whitelist = DETECTION_CATEGORY_WHITELIST,
      padding_factor = PADDING_FACTOR,
      num_annotated_classes = NUM_ANNOTATED_CLASSES\<rparr>"

text \<open>
  What the script calls and does not define: opening and decoding an image
  (\<open>PIL.Image.open ... convert\<close>; \<open>None\<close> is any exception raised inside the \<open>try\<close>
  block), running the classifier on a crop (\<open>sess.run\<close>; \<open>None\<close> is an exception raised
  by the call) and \<open>np.argsort\<close>. They are parameters of the model.
\<close>

record 'px env =
  load_image :: "string \<Rightarrow> 'px image_data option"
  sess_run :: "'px list list \<Rightarrow> real list option"
  argsort :: "real list \<Rightarrow> nat list"

text \<open>
  An exception leaves the function early; the caller still holds the JSON object, which
  the function mutates in place. \<open>Raised e s\<close> is the exception \<open>e\<close> together with the
  state \<open>s\<close> of the object at that moment, \<open>Returned s\<close> the normal return.
\<close>

datatype error = AssertionError | IOError | ClassifierError

datatype 'a outcome = Returned 'a | Raised error 'a

section \<open>Formatting and slicing\<close>

text \<open>The format \<open>'%i' % idx\<close> of a non-negative index: its decimal digits.\<close>

definition digit_char :: "nat \<Rightarrow> char" where
  "digit_char d = ''0123456789'' ! d"

fun format_i :: "nat \<Rightarrow> string" where
  "format_i n =
     (if n < 10 then [digit_char n]
      else format_i (n div 10) @ [digit_char (n mod 10)])"

text \<open>
  A Python slice \<open>xs[i:j]\<close> with step 1: a negative bound counts from the end, and every
  bound is clipped to the length, so a slice never raises.
\<close>

definition slice_bound :: "nat \<Rightarrow> int \<Rightarrow> nat" where
  "slice_bound n k = (if k < 0 then nat (max 0 (k + int n)) else min (nat k) n)"

definition py_slice :: "int \<Rightarrow> int \<Rightarrow> 'a list \<Rightarrow> 'a list" where
  "py_slice i j xs =
     (let a = slice_bound (length xs) i; b = slice_bound (length xs) j
      in take (b - a) (drop a xs))"

text \<open>\<open>image_data[y0:y1, x0:x1]\<close>: the rows \<open>y0\<close> to \<open>y1\<close>, and of each the columns \<open>x0\<close> to \<open>x1\<close>.\<close>

definition crop_image :: "'px list list \<Rightarrow> int \<times> int \<times> int \<times> int \<Rightarrow> 'px list list" where
  "crop_image rows c =
     (case c of (y0, x0, y1, x1) \<Rightarrow> map (py_slice x0 x1) (py_slice y0 y1 rows))"

section \<open>The crop rectangle (lines 171 to 189)\<close>

text \<open>\<open>[x_min, y_min, width, height]\<close> to \<open>[ymin, xmin, ymax, xmax]\<close>.\<close>

definition box_coords :: "real \<times> real \<times> real \<times> real \<Rightarrow> real \<times> real \<times> real \<times> real" where
  "box_coords box_orig =
     (case box_orig of (x, y, w, h) \<Rightarrow> (y, x, y + h, x + w))"

text \<open>Times \<open>[image_height, image_width, image_height, image_width]\<close>.\<close>

definition box_coords_abs ::
  "nat \<Rightarrow> nat \<Rightarrow> real \<times> real \<times> real \<times> real \<Rightarrow> real \<times> real \<times> real \<times> real" where
  "box_coords_abs H W box_orig =
     (case box_coords box_orig of
        (ymin, xmin, ymax, xmax) \<Rightarrow> (ymin * real H, xmin * real W, ymax * real H, xmax * real W))"

text \<open>Height and width of the box in pixels.\<close>

definition bbox_sizes :: "real \<times> real \<times> real \<times> real \<Rightarrow> real \<times> real" where
  "bbox_sizes c = (case c of (ymin, xmin, ymax, xmax) \<Rightarrow> (ymax - ymin, xmax - xmin))"

text \<open>The side of the padded square: \<open>padding_factor * np.max(bbox_sizes)\<close>.\<close>

definition target_side :: "real \<Rightarrow> real \<times> real \<Rightarrow> real" where
  "target_side pf sz = (case sz of (h, w) \<Rightarrow> pf * max h w)"

definition offsets :: "real \<Rightarrow> real \<times> real \<Rightarrow> real \<times> real" where
  "offsets pf sz = (case sz of (h, w) \<Rightarrow> ((target_side pf sz - h) / 2, (target_side pf sz - w) / 2))"

text \<open>\<open>box_coords_abs + np.hstack([-offsets, offsets])\<close>, before clamping.\<close>

definition crop_boxes :: "real \<Rightarrow> real \<times> real \<times> real \<times> real \<Rightarrow> real \<times> real \<times> real \<times> real" where
  "crop_boxes pf c =
     (case c of (ymin, xmin, ymax, xmax) \<Rightarrow>
        (case offsets pf (bbox_sizes c) of (oh, ow) \<Rightarrow>
           (ymin + (- oh), xmin + (- ow), ymax + oh, xmax + ow)))"

text \<open>\<open>astype(int)\<close> drops the fraction (rounds towards zero).\<close>

definition astype_int :: "real \<Rightarrow> int" where
  "astype_int r = (if 0 \<le> r then \<lfloor>r\<rfloor> else \<lceil>r\<rceil>)"

text \<open>\<open>np.maximum(0, crop_boxes).astype(int)\<close>: the only clamp is the one at 0.\<close>

definition crop_box ::
  "real \<Rightarrow> nat \<Rightarrow> nat \<Rightarrow> real \<times> real \<times> real \<times> real \<Rightarrow> int \<times> int \<times> int \<times> int" where
  "crop_box pf H W box_orig =
     (case crop_boxes pf (box_coords_abs H W box_orig) of
        (y0, x0, y1, x1) \<Rightarrow>
          (astype_int (max 0 y0), astype_int (max 0 x0),
           astype_int (max 0 y1), astype_int (max 0 x1)))"

section \<open>The crop rectangle in float64 arithmetic\<close>

text \<open>
  In the script every one of these operations is a float64 operation: it returns the
  exact result rounded to the nearest double. \<open>rnd\<close> is that rounding. The statements
  below use of it only what \<open>float_rounding\<close> says, which round-to-nearest has as long
  as results stay finite: it is monotone, it leaves a double as it is, and 0 is a
  double. Exact arithmetic (\<open>rnd\<close> the identity) is one instance.
\<close>

definition float_rounding :: "(real \<Rightarrow> real) \<Rightarrow> bool" where
  "float_rounding rnd =
     ((\<forall>a b. a \<le> b \<longrightarrow> rnd a \<le> rnd b) \<and> (\<forall>a. rnd (rnd a) = rnd a) \<and> rnd 0 = 0)"

text \<open>Lines 175 to 179: the two sums are Python float additions.\<close>

definition box_coords_fl ::
  "(real \<Rightarrow> real) \<Rightarrow> real \<times> real \<times> real \<times> real \<Rightarrow> real \<times> real \<times> real \<times> real" where
  "box_coords_fl rnd box_orig =
     (case box_orig of (x, y, w, h) \<Rightarrow> (y, x, rnd (y + h), rnd (x + w)))"

text \<open>Line 181: four products (the height and the width are integers, converted exactly).\<close>

definition box_coords_abs_fl ::
  "(real \<Rightarrow> real) \<Rightarrow> nat \<Rightarrow> nat \<Rightarrow> real \<times> real \<times> real \<times> real
     \<Rightarrow> real \<times> real \<times> real \<times> real" where
  "box_coords_abs_fl rnd H W box_orig =
     (case box_coords_fl rnd box_orig of
        (ymin, xmin, ymax, xmax) \<Rightarrow>
          (rnd (ymin * real H), rnd (xmin * real W), rnd (ymax * real H), rnd (xmax * real W)))"

text \<open>Line 184: two differences.\<close>

definition bbox_sizes_fl :: "(real \<Rightarrow> real) \<Rightarrow> real \<times> real \<times> real \<times> real \<Rightarrow> real \<times> real" where
  "bbox_sizes_fl rnd c =
     (case c of (ymin, xmin, ymax, xmax) \<Rightarrow> (rnd (ymax - ymin), rnd (xmax - xmin)))"

text \<open>Line 185: a product, then for each axis a difference and a division by 2.\<close>

definition target_side_fl :: "(real \<Rightarrow> real) \<Rightarrow> real \<Rightarrow> real \<times> real \<Rightarrow> real" where
  "target_side_fl rnd pf sz = (case sz of (h, w) \<Rightarrow> rnd (pf * max h w))"

definition offsets_fl :: "(real \<Rightarrow> real) \<Rightarrow> real \<Rightarrow> real \<times> real \<Rightarrow> real \<times> real" where
  "offsets_fl rnd pf sz =
     (case sz of (h, w) \<Rightarrow>
        (rnd (rnd (target_side_fl rnd pf sz - h) / 2),
         rnd (rnd (target_side_fl rnd pf sz - w) / 2)))"

text \<open>Line 186: four sums (the negation is exact).\<close>

definition crop_boxes_fl ::
  "(real \<Rightarrow> real) \<Rightarrow> real \<Rightarrow> real \<times> real \<times> real \<times> real \<Rightarrow> real \<times> real \<times> real \<times> real" where
  "crop_boxes_fl rnd pf c =
     (case c of (ymin, xmin, ymax, xmax) \<Rightarrow>
        (case offsets_fl rnd pf (bbox_sizes_fl rnd c) of (oh, ow) \<Rightarrow>
           (rnd (ymin + (- oh)), rnd (xmin + (- ow)), rnd (ymax + oh), rnd (xmax + ow))))"

text \<open>
  Line 187: \<open>astype(int)\<close> is a cast to int64. It drops the fraction; for a value
  outside the range of int64 the cast is not defined by C, and numpy on x86-64 returns
  the least int64.
\<close>

definition astype_int64 :: "real \<Rightarrow> int" where
  "astype_int64 r =
     (let t = astype_int r
      in if - (2 ^ 63) \<le> t \<and> t < 2 ^ 63 then t else - (2 ^ 63))"

definition crop_box_fl ::
  "(real \<Rightarrow> real) \<Rightarrow> real \<Rightarrow> nat \<Rightarrow> nat \<Rightarrow> real \<times> real \<times> real \<times> real
     \<Rightarrow> int \<times> int \<times> int \<times> int" where
  "crop_box_fl rnd pf H W box_orig =
     (case crop_boxes_fl rnd pf (box_coords_abs_fl rnd H W box_orig) of
        (y0, x0, y1, x1) \<Rightarrow>
          (astype_int64 (max 0 y0), astype_int64 (max 0 x0),
           astype_int64 (max 0 y1), astype_int64 (max 0 x1)))"

text \<open>
  A rounding that is not the identity, for trying the statements: to the nearest
  multiple of one eighth.
\<close>

definition nearest_eighth :: "real \<Rightarrow> real" where
  "nearest_eighth a = real_of_int \<lfloor>a * 8 + 1 / 2\<rfloor> / 8"

section \<open>One detection (lines 157 to 200)\<close>

text \<open>The three \<open>continue\<close> statements, in the order of the source.\<close>

definition skip_detection :: "settings \<Rightarrow> detection \<Rightarrow> bool" where
  "skip_detection S d =
     (if conf d < confidence_threshold S then True
      else if category d \<notin> set (detection_category_whitelist S) then True
      else (case classifications d of
              None \<Rightarrow> False
            | Some cs \<Rightarrow> 0 < length cs))"

text \<open>
  The loop over \<open>np.argsort(-predictions)[:num_annotated_classes]\<close> that appends
  \<open>['%i' % class_idx, predictions[class_idx].item()]\<close>. \<open>np.argsort\<close> returns a
  permutation of the indices of its argument, so the read \<open>predictions[class_idx]\<close> is
  always in range.
\<close>

definition top_indices :: "(real list \<Rightarrow> nat list) \<Rightarrow> int \<Rightarrow> real list \<Rightarrow> nat list" where
  "top_indices asort k predictions = py_slice 0 k (asort (map uminus predictions))"

definition top_classes :: "(real list \<Rightarrow> nat list) \<Rightarrow> int \<Rightarrow> real list \<Rightarrow> (string \<times> real) list" where
  "top_classes asort k predictions =
     map (\<lambda>class_idx. (format_i class_idx, predictions ! class_idx))
       (top_indices asort k predictions)"

text \<open>
  What numpy documents of \<open>np.argsort\<close>: the indices that sort the array, that is a
  permutation of the indices along which the values do not decrease. The default kind
  (quicksort) is not stable: among equal values the order of the indices is not fixed.
\<close>

definition numpy_argsort :: "(real list \<Rightarrow> nat list) \<Rightarrow> bool" where
  "numpy_argsort asort =
     (\<forall>a. mset (asort a) = mset [0..<length a] \<and> sorted (map (\<lambda>i. a ! i) (asort a)))"

text \<open>Two sorts that numpy's contract admits: a stable one, and one that is not.\<close>

definition stable_argsort :: "real list \<Rightarrow> nat list" where
  "stable_argsort a = sort_key (\<lambda>i. a ! i) [0..<length a]"

definition reversing_argsort :: "real list \<Rightarrow> nat list" where
  "reversing_argsort a = sort_key (\<lambda>i. a ! i) (rev [0..<length a])"

text \<open>
  A \<open>for\<close> loop over the indices of a list that updates the elements in place: an
  exception in the body ends the loop, the elements before are already updated, the
  element of the failing step is as the body left it and those after it are as they
  were.
\<close>

fun for_each :: "('a \<Rightarrow> 'a outcome) \<Rightarrow> 'a list \<Rightarrow> 'a list outcome" where
  "for_each body [] = Returned []"
| "for_each body (x # xs) =
     (case body x of
        Raised e x' \<Rightarrow> Raised e (x' # xs)
      | Returned x' \<Rightarrow>
          (case for_each body xs of
             Returned xs' \<Rightarrow> Returned (x' # xs')
           | Raised e xs' \<Rightarrow> Raised e (x' # xs')))"

text \<open>
  \<open>cropped_img\<close>: the crop of the detection's box, cut out of the pixel array
  (lines 172 to 192).
\<close>

definition cropped_img :: "settings \<Rightarrow> 'px image_data \<Rightarrow> detection \<Rightarrow> 'px list list" where
  "cropped_img S img cur_detection =
     crop_image (pixel_rows img)
       (crop_box (padding_factor S) (image_height img) (image_width img) (bbox cur_detection))"

text \<open>
  The body of the loop over the boxes of one image. The call of the classifier is not
  inside any \<open>try\<close>: when it raises, the detection has not been assigned to (the
  assignment of \<open>classifications\<close> comes after the call).
\<close>

definition classify_detection ::
  "'px env \<Rightarrow> settings \<Rightarrow> 'px image_data \<Rightarrow> detection \<Rightarrow> detection outcome" where
  "classify_detection E S img cur_detection =
     (if skip_detection S cur_detection then Returned cur_detection
      else
        (case sess_run E (cropped_img S img cur_detection) of
           None \<Rightarrow> Raised ClassifierError cur_detection
         | Some predictions \<Rightarrow>
             Returned (cur_detection\<lparr>classifications :=
               Some (top_classes (argsort E) (num_annotated_classes S) predictions)\<rparr>)))"

section \<open>The loops of classify_boxes (lines 132 to 210)\<close>

definition classify_detections ::
  "'px env \<Rightarrow> settings \<Rightarrow> 'px image_data \<Rightarrow> detection list \<Rightarrow> detection list outcome" where
  "classify_detections E S img ds = for_each (classify_detection E S img) ds"

text \<open>
  \<open>os.path.join(image_dir, image_path)\<close> when \<open>image_dir\<close> is not empty (POSIX: an absolute
  second path replaces the first, and a separator is added when the first lacks one).
\<close>

definition path_join :: "string \<Rightarrow> string \<Rightarrow> string" where
  "path_join a b =
     (if b \<noteq> [] \<and> hd b = CHR ''/'' then b
      else if a = [] \<or> last a = CHR ''/'' then a @ b
      else a @ ''/'' @ b)"

definition image_path :: "string \<Rightarrow> string \<Rightarrow> string" where
  "image_path image_dir f = (if image_dir \<noteq> [] then path_join image_dir f else f)"

text \<open>
  The body of the loop over the images. An image that fails to load is printed and
  skipped (\<open>continue\<close>): it stays as it is. (\<open>KeyboardInterrupt\<close>, which the handler
  raises again, is a signal from outside and no part of the model.)
\<close>

definition classify_image ::
  "'px env \<Rightarrow> settings \<Rightarrow> string \<Rightarrow> image_description \<Rightarrow> image_description outcome" where
  "classify_image E S image_dir image_description =
     (case load_image E (image_path image_dir (image_file image_description)) of
        None \<Rightarrow> Returned image_description
      | Some img \<Rightarrow>
          (case classify_detections E S img (detections image_description) of
             Returned ds' \<Rightarrow> Returned (image_description\<lparr>detections := ds'\<rparr>)
           | Raised e ds' \<Rightarrow> Raised e (image_description\<lparr>detections := ds'\<rparr>)))"

definition classify_images ::
  "'px env \<Rightarrow> settings \<Rightarrow> string \<Rightarrow> image_description list \<Rightarrow> image_description list outcome" where
  "classify_images E S image_dir ims = for_each (classify_image E S image_dir) ims"

text \<open>
  \<open>classify_boxes\<close>: the assertion on \<open>classification_categories\<close>, then the loops. (The
  other two assertions say that the whitelist is a list of strings, which its type says
  here.)
\<close>

definition classify_boxes ::
  "'px env \<Rightarrow> json_object \<Rightarrow> string \<Rightarrow> settings \<Rightarrow> json_object outcome" where
  "classify_boxes E json_with_classes image_dir S =
     (case classification_categories json_with_classes of
        None \<Rightarrow> Raised AssertionError json_with_classes
      | Some _ \<Rightarrow>
          (case classify_images E S image_dir (images json_with_classes) of
             Returned ims \<Rightarrow> Returned (json_with_classes\<lparr>images := ims\<rparr>)
           | Raised e ims \<Rightarrow> Raised e (json_with_classes\<lparr>images := ims\<rparr>)))"

section \<open>add_classification_categories (lines 59 to 92)\<close>

text \<open>
  \<open>cn.strip()\<close> is true when the line has a character that is not white space: among
  the code points below 256, Python's white space is 9 to 13, 28 to 32, 133 (U+0085) and
  160 (U+00A0). The lines come from \<open>splitlines\<close>; reading the file is a parameter
  (\<open>None\<close>: \<open>open\<close> raised). The names are stored as read, not stripped.
\<close>

definition is_space :: "char \<Rightarrow> bool" where
  "is_space c =
     (let n = (of_char c :: nat)
      in n = 32 \<or> (9 \<le> n \<and> n \<le> 13) \<or> (28 \<le> n \<and> n \<le> 31) \<or> n = 133 \<or> n = 160)"

definition nonblank :: "string \<Rightarrow> bool" where
  "nonblank cn = list_ex (\<lambda>c. \<not> is_space c) cn"

definition categories_of :: "string list \<Rightarrow> (string \<times> string) list" where
  "categories_of class_names = zip (map format_i [0..<length class_names]) class_names"

definition add_classification_categories ::
  "(string \<Rightarrow> string list option) \<Rightarrow> json_object \<Rightarrow> string \<Rightarrow> json_object outcome" where
  "add_classification_categories read_lines json classes_file =
     (case classification_categories json of
        None \<Rightarrow>
          (case read_lines classes_file of
             None \<Rightarrow> Raised IOError json
           | Some ls \<Rightarrow>
               Returned (json\<lparr>classification_categories :=
                 Some (categories_of (filter nonblank ls))\<rparr>))
      | Some _ \<Rightarrow> Returned json)"

section \<open>Properties and inputs the claims speak of\<close>

text \<open>A crop rectangle \<open>(y0, x0, y1, x1)\<close> with all four coordinates inside the image.\<close>

definition crop_within_image :: "nat \<Rightarrow> nat \<Rightarrow> int \<times> int \<times> int \<times> int \<Rightarrow> bool" where
  "crop_within_image H W c =
     (case c of (y0, x0, y1, x1) \<Rightarrow>
        0 \<le> y0 \<and> y0 \<le> int H \<and> 0 \<le> y1 \<and> y1 \<le> int H \<and>
        0 \<le> x0 \<and> x0 \<le> int W \<and> 0 \<le> x1 \<and> x1 \<le> int W)"

text \<open>Height and width of an integer crop rectangle.\<close>

definition crop_sizes :: "int \<times> int \<times> int \<times> int \<Rightarrow> int \<times> int" where
  "crop_sizes c = (case c of (y0, x0, y1, x1) \<Rightarrow> (y1 - y0, x1 - x0))"

text \<open>
  The scenario of the specification: an image of 400 by 300 pixels, one detection of
  category "1" with confidence 0.9 and box \<open>[0.25, 0.2, 0.25, 0.3]\<close>, the default settings
  with two annotated classes, and a classifier that answers \<open>[0.1, 0.7, 0.2]\<close> on a crop
  of 160 by 160 pixels.
\<close>

definition scenario_detection :: detection where
  "scenario_detection =
     \<lparr>category = ''1'', conf = 9/10, bbox = (1/4, 1/5, 1/4, 3/10), classifications = None\<rparr>"

definition scenario_settings :: settings where
  "scenario_settings = default_settings\<lparr>num_annotated_classes := 2\<rparr>"

definition scenario_image :: "nat image_data" where
  "scenario_image =
     \<lparr>image_height = 300, image_width = 400, pixel_rows = replicate 300 (replicate 400 0)\<rparr>"

text \<open>
  Every file but \<open>missing.jpg\<close> decodes to that image; the classifier raises on a crop
  that is not 160 by 160 pixels (an empty crop, for one).
\<close>

definition scenario_env :: "nat env" where
  "scenario_env =
     \<lparr>load_image = (\<lambda>p. if p = ''missing.jpg'' then None else Some scenario_image),
      sess_run = (\<lambda>crop. if length crop = 160 \<and> list_all (\<lambda>r. length r = 160) crop
                          then Some [1/10, 7/10, 1/5] else None),
      argsort = stable_argsort\<rparr>"

text \<open>
  The scenario's detection after classification, a detection that was classified by an
  earlier run, one below the threshold that carries an earlier result, and one with a
  box of no area.
\<close>

definition scenario_classified :: detection where
  "scenario_classified =
     scenario_detection\<lparr>classifications := Some [(''1'', 7/10), (''2'', 1/5)]\<rparr>"

definition earlier_detection :: detection where
  "earlier_detection = scenario_detection\<lparr>classifications := Some [(''0'', 1/2)]\<rparr>"

definition low_detection :: detection where
  "low_detection = scenario_detection\<lparr>conf := 1/2, classifications := Some [(''0'', 1/2)]\<rparr>"

definition degenerate_detection :: detection where
  "degenerate_detection = scenario_detection\<lparr>bbox := (1/4, 1/5, 0, 0)\<rparr>"

text \<open>
  A batch of three images, the second of which is missing, with the catalogue of three
  class names, and the same batch after \<open>classify_boxes\<close>.
\<close>

definition scenario_json :: json_object where
  "scenario_json =
     \<lparr>classification_categories = Some [(''0'', ''lion''), (''1'', ''zebra''), (''2'', ''gnu'')],
      images =
        [\<lparr>image_file = ''a.jpg'', detections = [scenario_detection, low_detection]\<rparr>,
         \<lparr>image_file = ''missing.jpg'', detections = [scenario_detection]\<rparr>,
         \<lparr>image_file = ''c.jpg'', detections = [earlier_detection, scenario_detection]\<rparr>]\<rparr>"

definition scenario_json_classified :: json_object where
  "scenario_json_classified =
     \<lparr>classification_categories = Some [(''0'', ''lion''), (''1'', ''zebra''), (''2'', ''gnu'')],
      images =
        [\<lparr>image_file = ''a.jpg'', detections = [scenario_classified, low_detection]\<rparr>,
         \<lparr>image_file = ''missing.jpg'', detections = [scenario_detection]\<rparr>,
         \<lparr>image_file = ''c.jpg'', detections = [earlier_detection, scenario_classified]\<rparr>]\<rparr>"

text \<open>
  A batch in which the classifier raises on the second detection of the second image,
  and the state of the object when the exception leaves \<open>classify_boxes\<close>.
\<close>

definition failing_json :: json_object where
  "failing_json =
     \<lparr>classification_categories = Some [(''0'', ''lion''), (''1'', ''zebra''), (''2'', ''gnu'')],
      images =
        [\<lparr>image_file = ''a.jpg'', detections = [scenario_detection]\<rparr>,
         \<lparr>image_file = ''b.jpg'',
          detections = [scenario_detection, degenerate_detection, scenario_detection]\<rparr>,
         \<lparr>image_file = ''c.jpg'', detections = [scenario_detection]\<rparr>]\<rparr>"

definition failing_json_state :: json_object where
  "failing_json_state =
     \<lparr>classification_categories = Some [(''0'', ''lion''), (''1'', ''zebra''), (''2'', ''gnu'')],
      images =
        [\<lparr>image_file = ''a.jpg'', detections = [scenario_classified]\<rparr>,
         \<lparr>image_file = ''b.jpg'',
          detections = [scenario_classified, degenerate_detection, scenario_detection]\<rparr>,
         \<lparr>image_file = ''c.jpg'', detections = [scenario_detection]\<rparr>]\<rparr>"

text \<open>
  A batch whose only image is missing and holds a detection that carries the result of
  an earlier run.
\<close>

definition missing_json :: json_object where
  "missing_json =
     \<lparr>classification_categories = Some [(''0'', ''lion''), (''1'', ''zebra''), (''2'', ''gnu'')],
      images =
        [\<lparr>image_file = ''missing.jpg'', detections = [earlier_detection, scenario_detection]\<rparr>]\<rparr>"

text \<open>The object the caller holds after a call, returned or not.\<close>

definition state_of :: "'a outcome \<Rightarrow> 'a" where
  "state_of r = (case r of Returned s \<Rightarrow> s | Raised e s \<Rightarrow> s)"

text \<open>The three conditions of the specification's box selector.\<close>

definition should_classify :: "settings \<Rightarrow> detection \<Rightarrow> bool" where
  "should_classify S d =
     (confidence_threshold S \<le> conf d \<and> category d \<in> set (detection_category_whitelist S)
      \<and> (classifications d = None \<or> classifications d = Some []))"

section \<open>Facts about the crop and the slices\<close>

lemma astype_int_max0: "astype_int (max 0 r) = \<lfloor>max 0 r\<rfloor>"
  by (simp add: astype_int_def)

lemma crop_box_explicit:
  "crop_box pf H W (x, y, w, h) =
     (let hp = (y + h) * real H - y * real H; wp = (x + w) * real W - x * real W;
          t = pf * max hp wp
      in (\<lfloor>max 0 (y * real H - (t - hp) / 2)\<rfloor>, \<lfloor>max 0 (x * real W - (t - wp) / 2)\<rfloor>,
          \<lfloor>max 0 ((y + h) * real H + (t - hp) / 2)\<rfloor>, \<lfloor>max 0 ((x + w) * real W + (t - wp) / 2)\<rfloor>))"
  by (simp add: crop_box_def crop_boxes_def box_coords_abs_def box_coords_def
      bbox_sizes_def offsets_def target_side_def astype_int_max0 Let_def)

lemma crop_box_nonneg:
  "crop_box pf H W b = (y0, x0, y1, x1) \<Longrightarrow> 0 \<le> y0 \<and> 0 \<le> x0 \<and> 0 \<le> y1 \<and> 0 \<le> x1"
  by (cases b) (auto simp: crop_box_explicit Let_def)

lemma py_slice_length: "length (py_slice i j xs) \<le> length xs"
  by (simp add: py_slice_def Let_def)

lemma py_slice_set: "set (py_slice i j xs) \<subseteq> set xs"
  by (auto simp: py_slice_def Let_def dest: in_set_takeD in_set_dropD)

lemma py_slice_prefix: "0 \<le> k \<Longrightarrow> py_slice 0 k xs = take (nat k) xs"
  by (simp add: py_slice_def slice_bound_def min_def)

lemma crop_image_rows: "length (crop_image rows c) \<le> length rows"
  by (cases c) (simp add: crop_image_def py_slice_length)

lemma crop_image_cols:
  assumes "r \<in> set (crop_image rows c)"
  shows "\<exists>r0 \<in> set rows. length r \<le> length r0"
proof -
  obtain y0 x0 y1 x1 where c: "c = (y0, x0, y1, x1)" by (cases c) auto
  from assms c obtain r0 where r0: "r0 \<in> set (py_slice y0 y1 rows)" and r: "r = py_slice x0 x1 r0"
    by (auto simp: crop_image_def)
  from r0 have "r0 \<in> set rows" using py_slice_set by fastforce
  moreover have "length r \<le> length r0" by (simp add: r py_slice_length)
  ultimately show ?thesis by blast
qed

text \<open>
  What the code does guarantee about the crop: no coordinate is negative, and the slice
  of the pixel array clips at the far edges, so the block handed to the classifier is
  never larger than the image.
\<close>

lemma crop_box_clamped_below:
  assumes "crop_box pf H W b = (y0, x0, y1, x1)"
    and "length rows = H" and "list_all (\<lambda>r. length r = W) rows"
  shows "0 \<le> y0 \<and> 0 \<le> x0 \<and> 0 \<le> y1 \<and> 0 \<le> x1
       \<and> length (crop_image rows (y0, x0, y1, x1)) \<le> H
       \<and> list_all (\<lambda>r. length r \<le> W) (crop_image rows (y0, x0, y1, x1))"
proof -
  have "\<And>r. r \<in> set (crop_image rows (y0, x0, y1, x1)) \<Longrightarrow> length r \<le> W"
    using crop_image_cols assms(3) by (fastforce simp: list_all_iff)
  then have "list_all (\<lambda>r. length r \<le> W) (crop_image rows (y0, x0, y1, x1))"
    by (simp add: list_all_iff)
  moreover have "length (crop_image rows (y0, x0, y1, x1)) \<le> H"
    using crop_image_rows[of rows] assms(2) by simp
  ultimately show ?thesis using crop_box_nonneg[OF assms(1)] by simp
qed

section \<open>Facts about the crop in float64 arithmetic\<close>

lemma float_rounding_mono: "float_rounding rnd \<Longrightarrow> a \<le> b \<Longrightarrow> rnd a \<le> rnd b"
  by (simp add: float_rounding_def)

lemma float_rounding_idem: "float_rounding rnd \<Longrightarrow> rnd (rnd a) = rnd a"
  by (simp add: float_rounding_def)

lemma float_rounding_zero: "float_rounding rnd \<Longrightarrow> rnd 0 = 0"
  by (simp add: float_rounding_def)

lemma float_rounding_nonneg: "float_rounding rnd \<Longrightarrow> 0 \<le> a \<Longrightarrow> 0 \<le> rnd a"
  using float_rounding_mono[of rnd 0 a] by (simp add: float_rounding_zero)

lemma float_rounding_exact: "float_rounding (\<lambda>a. a)"
  by (simp add: float_rounding_def)

lemma float_rounding_nearest_eighth: "float_rounding nearest_eighth"
proof -
  have m: "nearest_eighth a \<le> nearest_eighth b" if "a \<le> b" for a b
  proof -
    have "\<lfloor>a * 8 + 1 / 2\<rfloor> \<le> \<lfloor>b * 8 + 1 / 2\<rfloor>" using that by (intro floor_mono) simp
    then show ?thesis by (simp add: nearest_eighth_def divide_right_mono)
  qed
  have i: "nearest_eighth (nearest_eighth a) = nearest_eighth a" for a
  proof -
    define k where "k = \<lfloor>a * 8 + 1 / 2\<rfloor>"
    have "\<lfloor>real_of_int k / 8 * 8 + 1 / 2\<rfloor> = k" by (simp add: floor_unique)
    then show ?thesis by (simp add: nearest_eighth_def k_def)
  qed
  have z: "nearest_eighth 0 = 0" by (simp add: nearest_eighth_def)
  show ?thesis using m i z by (simp add: float_rounding_def)
qed

lemma astype_int64_in_range:
  assumes "0 \<le> v" and "v < 2 ^ 63"
  shows "astype_int64 v = \<lfloor>v\<rfloor>"
proof -
  have "0 \<le> \<lfloor>v\<rfloor>" using assms(1) by simp
  moreover have "\<lfloor>v\<rfloor> < 2 ^ 63" using assms(2) by (simp add: floor_less_iff)
  ultimately show ?thesis using assms(1) by (simp add: astype_int64_def astype_int_def Let_def)
qed

lemma astype_int64_le:
  assumes "0 \<le> v"
  shows "real_of_int (astype_int64 v) \<le> v"
proof (cases "\<lfloor>v\<rfloor> < 2 ^ 63")
  case True
  have "0 \<le> \<lfloor>v\<rfloor>" using assms by simp
  then have "astype_int64 v = \<lfloor>v\<rfloor>"
    using True assms by (simp add: astype_int64_def astype_int_def Let_def)
  then show ?thesis by simp
next
  case False
  then have "astype_int64 v = - (2 ^ 63)"
    using assms by (simp add: astype_int64_def astype_int_def Let_def)
  then show ?thesis using assms by simp
qed

lemma offsets_fl_nonneg:
  assumes "float_rounding rnd" and "1 \<le> pf"
    and "rnd hp = hp" and "rnd wp = wp" and "0 \<le> hp" and "0 \<le> wp"
  shows "0 \<le> fst (offsets_fl rnd pf (hp, wp)) \<and> 0 \<le> snd (offsets_fl rnd pf (hp, wp))"
proof -
  define m where "m = max hp wp"
  define t where "t = rnd (pf * m)"
  have m0: "0 \<le> m" using assms(5) by (simp add: m_def)
  have rm: "rnd m = m" using assms(3,4) by (simp add: m_def max_def)
  have "m * 1 \<le> m * pf" using m0 assms(2) by (rule mult_left_mono[rotated])
  then have "m \<le> pf * m" by (simp add: mult.commute)
  then have "rnd m \<le> t" unfolding t_def by (rule float_rounding_mono[OF assms(1)])
  then have mt: "m \<le> t" by (simp add: rm)
  have "0 \<le> t - hp" "0 \<le> t - wp" using mt by (simp_all add: m_def)
  then have "0 \<le> rnd (t - hp) / 2" "0 \<le> rnd (t - wp) / 2"
    using float_rounding_nonneg[OF assms(1)] by simp_all
  then have "0 \<le> rnd (rnd (t - hp) / 2)" "0 \<le> rnd (rnd (t - wp) / 2)"
    using float_rounding_nonneg[OF assms(1)] by simp_all
  then show ?thesis by (simp add: offsets_fl_def target_side_fl_def t_def m_def)
qed

text \<open>
  With exact arithmetic, and inside the range of int64, the rounded model is the exact
  one.
\<close>

lemma crop_fl_exact_parts:
  "box_coords_abs_fl (\<lambda>a. a) H W b = box_coords_abs H W b"
  "bbox_sizes_fl (\<lambda>a. a) c = bbox_sizes c"
  "target_side_fl (\<lambda>a. a) pf sz = target_side pf sz"
  "offsets_fl (\<lambda>a. a) pf sz = offsets pf sz"
  "crop_boxes_fl (\<lambda>a. a) pf c = crop_boxes pf c"
  by (simp_all add: box_coords_abs_fl_def box_coords_abs_def box_coords_fl_def box_coords_def
      bbox_sizes_fl_def bbox_sizes_def target_side_fl_def target_side_def offsets_fl_def
      offsets_def crop_boxes_fl_def crop_boxes_def split: prod.splits)

lemma crop_box_fl_exact:
  assumes "crop_boxes pf (box_coords_abs H W b) = (a, b', c, d)"
    and "a < 2 ^ 63" and "b' < 2 ^ 63" and "c < 2 ^ 63" and "d < 2 ^ 63"
  shows "crop_box_fl (\<lambda>a. a) pf H W b = crop_box pf H W b"
  using assms
  by (simp add: crop_box_fl_def crop_box_def crop_fl_exact_parts astype_int64_in_range
      astype_int_max0)

text \<open>
  The rounded model at inputs whose numbers are all doubles (so that float64 computes
  exactly these values), and with the rounding to eighths.
\<close>

lemma crop_fl_exact_example:
  "box_coords_abs_fl (\<lambda>a. a) 16 16 (1/8, 1/8, 1/2, 1/4) = (2, 2, 6, 10)"
  "crop_boxes_fl (\<lambda>a. a) (3/2) (2, 2, 6, 10) = (- 2, 0, 10, 12)"
  "crop_box_fl (\<lambda>a. a) (3/2) 16 16 (1/8, 1/8, 1/2, 1/4) = (0, 0, 10, 12)"
  by (simp_all add: crop_box_fl_def crop_boxes_fl_def offsets_fl_def target_side_fl_def
      bbox_sizes_fl_def box_coords_abs_fl_def box_coords_fl_def astype_int64_def astype_int_def)

lemma crop_fl_eighth_example:
  "box_coords_abs_fl nearest_eighth 10 10 (1/8, 1/8, 3/8, 1/4) = (5/4, 5/4, 15/4, 5)"
  "offsets_fl nearest_eighth (3/2) (bbox_sizes_fl nearest_eighth (5/4, 5/4, 15/4, 5)) = (13/8, 1)"
  "crop_boxes_fl nearest_eighth (3/2) (5/4, 5/4, 15/4, 5) = (- 3/8, 1/4, 43/8, 6)"
  "crop_box_fl nearest_eighth (3/2) 10 10 (1/8, 1/8, 3/8, 1/4) = (0, 0, 5, 6)"
  by (simp_all add: crop_box_fl_def crop_boxes_fl_def offsets_fl_def target_side_fl_def
      bbox_sizes_fl_def box_coords_abs_fl_def box_coords_fl_def astype_int64_def astype_int_def
      nearest_eighth_def)

lemma degenerate_examples:
  "box_coords_abs_fl (\<lambda>a. a) 300 400 (1/4, 1/5, 0, 0) = (60, 100, 60, 100)"
  "bbox_sizes_fl (\<lambda>a. a) (60, 100, 60, 100) = (0, 0)"
  "box_coords_abs_fl (\<lambda>a. a) 300 400 (1/4, 1/5, 1/4, 0) = (60, 100, 60, 200)"
  "bbox_sizes_fl (\<lambda>a. a) (60, 100, 60, 200) = (0, 100)"
  by (simp_all add: box_coords_abs_fl_def box_coords_fl_def bbox_sizes_fl_def)

section \<open>Facts about np.argsort and the top classes\<close>

lemma stable_argsort_ok: "numpy_argsort stable_argsort"
  by (simp add: numpy_argsort_def stable_argsort_def)

lemma reversing_argsort_ok: "numpy_argsort reversing_argsort"
  by (simp add: numpy_argsort_def reversing_argsort_def)

lemma numpy_argsort_set:
  assumes "numpy_argsort asort"
  shows "set (asort a) = {0..<length a}" and "distinct (asort a)" and "length (asort a) = length a"
proof -
  have m: "mset (asort a) = mset [0..<length a]" using assms by (simp add: numpy_argsort_def)
  show "set (asort a) = {0..<length a}" using mset_eq_setD[OF m] by simp
  show "distinct (asort a)" using m by (metis distinct_upt mset_eq_imp_distinct_iff)
  show "length (asort a) = length a" using mset_eq_length[OF m] by simp
qed

lemma numpy_argsort_unique:
  assumes "numpy_argsort asort" and "distinct a"
  shows "asort a = stable_argsort a"
proof (rule map_sorted_distinct_set_unique[where f = "\<lambda>i. a ! i"])
  have s1: "set (asort a) = {0..<length a}" by (rule numpy_argsort_set(1)[OF assms(1)])
  have s2: "set (stable_argsort a) = {0..<length a}"
    by (rule numpy_argsort_set(1)[OF stable_argsort_ok])
  show inj: "inj_on (\<lambda>i. a ! i) (set (asort a) \<union> set (stable_argsort a))"
    unfolding s1 s2 using assms(2) by (auto simp: inj_on_def nth_eq_iff_index_eq)
  show "sorted (map (\<lambda>i. a ! i) (asort a))" using assms(1) by (simp add: numpy_argsort_def)
  show "sorted (map (\<lambda>i. a ! i) (stable_argsort a))"
    using stable_argsort_ok by (simp add: numpy_argsort_def)
  show "distinct (map (\<lambda>i. a ! i) (asort a))"
    using inj numpy_argsort_set(2)[OF assms(1)] by (auto simp: distinct_map intro: inj_on_subset)
  show "distinct (map (\<lambda>i. a ! i) (stable_argsort a))"
    using inj numpy_argsort_set(2)[OF stable_argsort_ok] by (auto simp: distinct_map intro: inj_on_subset)
  show "set (asort a) = set (stable_argsort a)" by (simp add: s1 s2)
qed

lemma top_classes_unique:
  assumes "numpy_argsort asort" and "distinct p"
  shows "top_classes asort k p = top_classes stable_argsort k p"
proof -
  have "distinct (map uminus p)" using assms(2) by (simp add: distinct_map)
  then have "asort (map uminus p) = stable_argsort (map uminus p)"
    by (rule numpy_argsort_unique[OF assms(1)])
  then show ?thesis by (simp add: top_classes_def top_indices_def)
qed

lemma sorted_map_uminus: "sorted (map uminus xs) = sorted (rev (xs :: real list))"
  by (simp add: sorted_wrt_rev sorted_wrt_map)

lemma categories_of_keys: "map fst (categories_of names) = map format_i [0..<length names]"
  by (simp add: categories_of_def)

lemma top_indices_props:
  assumes "numpy_argsort asort" and "0 \<le> k"
  shows "length (top_indices asort k p) = min (nat k) (length p)"
    and "distinct (top_indices asort k p)"
    and "set (top_indices asort k p) \<subseteq> {0..<length p}"
    and "sorted (rev (map (\<lambda>i. p ! i) (top_indices asort k p)))"
    and "\<And>i j. i \<in> set (top_indices asort k p) \<Longrightarrow> j < length p \<Longrightarrow>
           j \<notin> set (top_indices asort k p) \<Longrightarrow> p ! j \<le> p ! i"
proof -
  define l where "l = asort (map uminus p)"
  define m where "m = nat k"
  have len: "length l = length p" using numpy_argsort_set(3)[OF assms(1), of "map uminus p"] by (simp add: l_def)
  have st: "set l = {0..<length p}" using numpy_argsort_set(1)[OF assms(1), of "map uminus p"] by (simp add: l_def)
  have di: "distinct l" using numpy_argsort_set(2)[OF assms(1)] by (simp add: l_def)
  have "sorted (map (\<lambda>i. map uminus p ! i) l)" using assms(1) by (simp add: numpy_argsort_def l_def)
  moreover have "map (\<lambda>i. map uminus p ! i) l = map (\<lambda>i. - (p ! i)) l"
    using st by (intro map_cong) auto
  ultimately have so: "sorted (map (\<lambda>i. - (p ! i)) l)" by simp
  have ti: "top_indices asort k p = take m l"
    by (simp add: top_indices_def l_def m_def py_slice_prefix[OF assms(2)])
  show "length (top_indices asort k p) = min (nat k) (length p)"
    by (simp add: ti len m_def min.commute)
  show "distinct (top_indices asort k p)" by (simp add: ti di)
  show "set (top_indices asort k p) \<subseteq> {0..<length p}"
    using set_take_subset[of m l] st by (simp add: ti)
  have "sorted (map (\<lambda>i. - (p ! i)) (take m l))"
    using so by (simp add: take_map[symmetric] sorted_wrt_take)
  then have "sorted (map uminus (map (\<lambda>i. p ! i) (take m l)))" by (simp add: comp_def)
  then show "sorted (rev (map (\<lambda>i. p ! i) (top_indices asort k p)))"
    unfolding ti sorted_map_uminus by simp
  fix i j assume i: "i \<in> set (top_indices asort k p)" and j: "j < length p"
    and nj: "j \<notin> set (top_indices asort k p)"
  have "j \<in> set l" using st j by simp
  then have "j \<in> set (take m l) \<union> set (drop m l)" by (metis append_take_drop_id set_append)
  then have jd: "j \<in> set (drop m l)" using nj ti by simp
  have "sorted (map (\<lambda>i. - (p ! i)) (take m l) @ map (\<lambda>i. - (p ! i)) (drop m l))"
    using so by (metis append_take_drop_id map_append)
  then have "\<forall>x\<in>set (take m l). \<forall>y\<in>set (drop m l). - (p ! x) \<le> - (p ! y)"
    by (auto simp: sorted_append)
  then show "p ! j \<le> p ! i" using i jd ti by auto
qed

section \<open>Facts about the loops\<close>

lemma for_each_Returned_iff:
  "for_each body xs = Returned ys \<longleftrightarrow> list_all2 (\<lambda>x y. body x = Returned y) xs ys"
proof (induction xs arbitrary: ys)
  case Nil
  then show ?case by auto
next
  case (Cons x xs)
  show ?case
    by (cases ys) (auto simp: Cons.IH[symmetric] split: outcome.splits)
qed

lemma for_each_append:
  "for_each body (xs @ ys) =
     (case for_each body xs of
        Raised e xs' \<Rightarrow> Raised e (xs' @ ys)
      | Returned xs' \<Rightarrow>
          (case for_each body ys of
             Returned ys' \<Rightarrow> Returned (xs' @ ys')
           | Raised e ys' \<Rightarrow> Raised e (xs' @ ys')))"
  by (induction xs) (auto split: outcome.splits)

lemma for_each_idem:
  assumes "\<And>x y. body x = Returned y \<Longrightarrow> body y = Returned y"
    and "for_each body xs = Returned ys"
  shows "for_each body ys = Returned ys"
proof -
  have "list_all2 (\<lambda>x y. body x = Returned y) xs ys"
    using assms(2) by (simp add: for_each_Returned_iff)
  then have "list_all2 (\<lambda>x y. body x = Returned y) ys ys"
    by (induction rule: list_all2_induct) (auto intro: assms(1))
  then show ?thesis by (simp add: for_each_Returned_iff)
qed

lemma for_each_length:
  "for_each body xs = Returned ys \<Longrightarrow> length ys = length xs"
  by (simp add: for_each_Returned_iff list_all2_lengthD)

lemma for_each_nth:
  "for_each body xs = Returned ys \<Longrightarrow> i < length xs \<Longrightarrow> body (xs ! i) = Returned (ys ! i)"
  by (auto simp: for_each_Returned_iff dest: list_all2_nthD)

lemma for_each_raise:
  assumes "for_each body xs = Returned xs'" and "body x = Raised e x'"
  shows "for_each body (xs @ x # ys) = Raised e (xs' @ x' # ys)"
  using assms by (simp add: for_each_append)

lemma for_each_skip:
  assumes "for_each body xs = Returned xs'" and "body x = Returned x'"
  shows "for_each body (xs @ x # ys) =
     (case for_each body ys of
        Returned ys' \<Rightarrow> Returned (xs' @ x' # ys')
      | Raised e ys' \<Rightarrow> Raised e (xs' @ x' # ys'))"
  using assms by (simp add: for_each_append split: outcome.splits)

lemma skip_detection_iff: "skip_detection S d \<longleftrightarrow> \<not> should_classify S d"
  by (cases "classifications d") (auto simp: skip_detection_def should_classify_def)

lemma classify_detection_cases:
  "classify_detection E S img d =
     (if should_classify S d
      then (case sess_run E (cropped_img S img d) of
              None \<Rightarrow> Raised ClassifierError d
            | Some p \<Rightarrow> Returned (d\<lparr>classifications :=
                         Some (top_classes (argsort E) (num_annotated_classes S) p)\<rparr>))
      else Returned d)"
  by (simp add: classify_detection_def skip_detection_iff)

lemma classify_detection_classified:
  assumes "classifications d = Some cs" and "cs \<noteq> []"
  shows "classify_detection E S img d = Returned d"
  using assms by (simp add: classify_detection_cases should_classify_def)

lemma cropped_img_update [simp]:
  "cropped_img S img (d\<lparr>classifications := c\<rparr>) = cropped_img S img d"
  by (simp add: cropped_img_def)

lemma classify_detection_idem:
  assumes "classify_detection E S img d = Returned d'"
  shows "classify_detection E S img d' = Returned d'"
proof (cases "should_classify S d")
  case False
  then show ?thesis using assms by (simp add: classify_detection_cases)
next
  case True
  then obtain p where p: "sess_run E (cropped_img S img d) = Some p"
    and d': "d' = d\<lparr>classifications := Some (top_classes (argsort E) (num_annotated_classes S) p)\<rparr>"
    using assms by (auto simp: classify_detection_cases split: option.splits)
  show ?thesis
  proof (cases "top_classes (argsort E) (num_annotated_classes S) p = []")
    case True
    then show ?thesis using p d' \<open>should_classify S d\<close>
      by (simp add: classify_detection_cases should_classify_def)
  next
    case False
    then show ?thesis using d' by (simp add: classify_detection_classified)
  qed
qed

lemma classify_image_idem:
  assumes "classify_image E S dir im = Returned im'"
  shows "classify_image E S dir im' = Returned im'"
proof (cases "load_image E (image_path dir (image_file im))")
  case None
  then show ?thesis using assms by (simp add: classify_image_def)
next
  case (Some img)
  then obtain ds' where ds: "classify_detections E S img (detections im) = Returned ds'"
    and im': "im' = im\<lparr>detections := ds'\<rparr>"
    using assms by (auto simp: classify_image_def split: outcome.splits)
  have "classify_detections E S img ds' = Returned ds'"
    using ds unfolding classify_detections_def
    by (rule for_each_idem[rotated]) (rule classify_detection_idem)
  then show ?thesis using Some im' by (simp add: classify_image_def)
qed

section \<open>The scenario and the two batches, evaluated\<close>

lemma scenario_top_classes:
  "top_classes stable_argsort 2 [1/10, 7/10, 1/5] = [(''1'', 7/10), (''2'', 1/5)]"
  by (simp add: top_classes_def top_indices_def stable_argsort_def upt_rec py_slice_def slice_bound_def digit_char_def)

lemma scenario_selected: "\<not> skip_detection scenario_settings scenario_detection"
  by (simp add: skip_detection_def scenario_settings_def scenario_detection_def default_settings_def
      DEFAULT_CONFIDENCE_THRESHOLD_def DETECTION_CATEGORY_WHITELIST_def)

lemma scenario_crop:
  "crop_box (padding_factor scenario_settings) 300 400 (bbox scenario_detection) = (25, 70, 185, 230)"
  by (simp add: crop_box_explicit scenario_settings_def scenario_detection_def default_settings_def
      PADDING_FACTOR_def)

lemma scenario_crop_image:
  "crop_image (replicate 300 (replicate 400 (0::nat))) (25, 70, 185, 230)
     = replicate 160 (replicate 160 0)"
  by (simp add: crop_image_def py_slice_def slice_bound_def)

lemma scenario_cropped:
  "cropped_img scenario_settings scenario_image scenario_detection = replicate 160 (replicate 160 0)"
  using scenario_crop
  by (simp add: cropped_img_def scenario_image_def scenario_crop_image)

lemma scenario_step:
  "classify_detection scenario_env scenario_settings scenario_image scenario_detection
     = Returned scenario_classified"
proof -
  have "should_classify scenario_settings scenario_detection"
    using scenario_selected by (simp add: skip_detection_iff)
  moreover have "sess_run scenario_env (replicate 160 (replicate 160 0)) = Some [1/10, 7/10, 1/5]"
    by (simp add: scenario_env_def list_all_iff)
  moreover have "argsort scenario_env = stable_argsort" by (simp add: scenario_env_def)
  moreover have "num_annotated_classes scenario_settings = 2" by (simp add: scenario_settings_def)
  ultimately show ?thesis
    by (simp add: classify_detection_cases scenario_cropped scenario_top_classes
        scenario_classified_def)
qed

lemma low_step:
  "classify_detection E scenario_settings img low_detection = Returned low_detection"
  by (simp add: classify_detection_classified low_detection_def)

lemma earlier_step:
  "classify_detection E scenario_settings img earlier_detection = Returned earlier_detection"
  by (simp add: classify_detection_classified earlier_detection_def)

lemma degenerate_cropped:
  "cropped_img scenario_settings scenario_image degenerate_detection = []"
proof -
  have "crop_box (padding_factor scenario_settings) 300 400 (bbox degenerate_detection)
          = (60, 100, 60, 100)"
    by (simp add: crop_box_explicit scenario_settings_def degenerate_detection_def
        scenario_detection_def default_settings_def PADDING_FACTOR_def)
  then show ?thesis
    by (simp add: cropped_img_def scenario_image_def crop_image_def py_slice_def slice_bound_def)
qed

lemma degenerate_selected: "\<not> skip_detection scenario_settings degenerate_detection"
  using scenario_selected
  by (auto simp: skip_detection_def degenerate_detection_def split: if_splits)

lemma degenerate_step:
  "classify_detection scenario_env scenario_settings scenario_image degenerate_detection
     = Raised ClassifierError degenerate_detection"
  by (simp add: classify_detection_def degenerate_selected degenerate_cropped scenario_env_def)

lemma scenario_load:
  "load_image scenario_env (image_path [] ''a.jpg'') = Some scenario_image"
  "load_image scenario_env (image_path [] ''b.jpg'') = Some scenario_image"
  "load_image scenario_env (image_path [] ''c.jpg'') = Some scenario_image"
  "load_image scenario_env (image_path [] ''missing.jpg'') = None"
  by (simp_all add: scenario_env_def image_path_def)

lemma scenario_batch:
  "classify_boxes scenario_env scenario_json [] scenario_settings = Returned scenario_json_classified"
  by (simp add: classify_boxes_def classify_images_def classify_image_def classify_detections_def
      scenario_json_def scenario_json_classified_def scenario_load scenario_step low_step earlier_step)

lemma failing_batch:
  "classify_boxes scenario_env failing_json [] scenario_settings
     = Raised ClassifierError failing_json_state"
  by (simp add: classify_boxes_def classify_images_def classify_image_def classify_detections_def
      failing_json_def failing_json_state_def scenario_load scenario_step degenerate_step)

section \<open>C1: the crop is clamped at 0 only\<close>

text \<open>
  Claim C1 says that all four coordinates of the crop rectangle lie inside the image,
  \<open>[0, image_height]\<close> and \<open>[0, image_width]\<close>. The code applies \<open>np.maximum(0, ...)\<close> and
  nothing else: for the box \<open>[0.5, 0.5, 0.5, 0.5]\<close> in an image of 100 by 100 pixels, with
  the default padding factor 1.6, the crop is \<open>(35, 35, 115, 115)\<close>, and 115 is beyond
  both the height and the width.
\<close>

theorem crop_box_not_clamped_above:
  "crop_box PADDING_FACTOR 100 100 (1/2, 1/2, 1/2, 1/2) = (35, 35, 115, 115)
   \<and> \<not> crop_within_image 100 100 (crop_box PADDING_FACTOR 100 100 (1/2, 1/2, 1/2, 1/2))"
  by (simp add: crop_box_explicit PADDING_FACTOR_def crop_within_image_def)

section \<open>C2: which detections are classified\<close>

text \<open>
  Claim C2 says that a detection which does not meet all three conditions keeps an
  absent or empty \<open>classifications\<close> field. A detection that already carries a result
  fails the third condition, is skipped, and keeps its non-empty list; so does a
  detection below the threshold that carries a result of an earlier run. In the batch
  below both still have \<open>[["0", 0.5]]\<close> after the run.
\<close>

theorem selection_counterexample:
  "classify_boxes scenario_env scenario_json [] scenario_settings = Returned scenario_json_classified
   \<and> detections (images scenario_json ! 2) ! 0 = earlier_detection
   \<and> \<not> should_classify scenario_settings earlier_detection
   \<and> classifications (detections (images scenario_json_classified ! 2) ! 0) = Some [(''0'', 1/2)]
   \<and> detections (images scenario_json ! 0) ! 1 = low_detection
   \<and> conf low_detection < confidence_threshold scenario_settings
   \<and> \<not> should_classify scenario_settings low_detection
   \<and> classifications (detections (images scenario_json_classified ! 0) ! 1) = Some [(''0'', 1/2)]"
proof -
  have a: "detections (images scenario_json ! 2) ! 0 = earlier_detection"
    and b: "detections (images scenario_json ! 0) ! 1 = low_detection"
    by (simp_all add: scenario_json_def)
  have c: "\<not> should_classify scenario_settings earlier_detection"
    and d: "\<not> should_classify scenario_settings low_detection"
    by (simp_all add: should_classify_def earlier_detection_def low_detection_def)
  have e: "conf low_detection < confidence_threshold scenario_settings"
    by (simp add: low_detection_def scenario_settings_def default_settings_def
        DEFAULT_CONFIDENCE_THRESHOLD_def)
  have f: "classifications (detections (images scenario_json_classified ! 2) ! 0) = Some [(''0'', 1/2)]"
    and g: "classifications (detections (images scenario_json_classified ! 0) ! 1) = Some [(''0'', 1/2)]"
    by (simp_all add: scenario_json_classified_def earlier_detection_def low_detection_def)
  show ?thesis using scenario_batch a b c d e f g by simp
qed

text \<open>
  Claim C2, amended. When \<open>classify_boxes\<close> returns, for every detection of every image
  that loaded: if its confidence is at least the threshold, its category is in the
  whitelist and its \<open>classifications\<close> are absent or empty, then the classifier returned
  on its crop and the detection is the same but for \<open>classifications\<close>, which is the list
  of the top classes of that answer; otherwise the detection is exactly as it was (an
  absent or empty field stays so, an earlier result is kept). The numbers of images and
  of detections do not change.
\<close>

theorem selection:
  assumes "classify_boxes E j dir S = Returned j'"
    and "i < length (images j)"
    and "load_image E (image_path dir (image_file (images j ! i))) = Some img"
    and "k < length (detections (images j ! i))"
  shows "length (images j') = length (images j)
       \<and> length (detections (images j' ! i)) = length (detections (images j ! i))
       \<and> (should_classify S (detections (images j ! i) ! k) \<longrightarrow>
            (\<exists>p. sess_run E (cropped_img S img (detections (images j ! i) ! k)) = Some p
               \<and> detections (images j' ! i) ! k =
                   (detections (images j ! i) ! k)\<lparr>classifications :=
                      Some (top_classes (argsort E) (num_annotated_classes S) p)\<rparr>))
       \<and> (\<not> should_classify S (detections (images j ! i) ! k) \<longrightarrow>
            detections (images j' ! i) ! k = detections (images j ! i) ! k)"
proof -
  obtain ims where ims: "classify_images E S dir (images j) = Returned ims"
    and j': "j' = j\<lparr>images := ims\<rparr>"
    using assms(1) by (auto simp: classify_boxes_def split: option.splits outcome.splits)
  have len: "length ims = length (images j)"
    using ims unfolding classify_images_def by (rule for_each_length)
  have "classify_image E S dir (images j ! i) = Returned (ims ! i)"
    using ims assms(2) unfolding classify_images_def by (rule for_each_nth)
  then obtain ds' where ds: "classify_detections E S img (detections (images j ! i)) = Returned ds'"
    and im': "ims ! i = (images j ! i)\<lparr>detections := ds'\<rparr>"
    using assms(3) by (auto simp: classify_image_def split: outcome.splits)
  have lend: "length ds' = length (detections (images j ! i))"
    using ds unfolding classify_detections_def by (rule for_each_length)
  have step: "classify_detection E S img (detections (images j ! i) ! k) = Returned (ds' ! k)"
    using ds assms(4) unfolding classify_detections_def by (rule for_each_nth)
  have dk: "detections (images j' ! i) ! k = ds' ! k" by (simp add: j' im')
  show ?thesis
    using step len lend
    by (auto simp: j' im' classify_detection_cases split: option.splits if_splits)
qed

theorem selection_witness:
  "classify_boxes scenario_env scenario_json [] scenario_settings = Returned scenario_json_classified
   \<and> (0::nat) < length (images scenario_json)
   \<and> load_image scenario_env (image_path [] (image_file (images scenario_json ! 0)))
       = Some scenario_image
   \<and> (0::nat) < length (detections (images scenario_json ! 0))
   \<and> should_classify scenario_settings (detections (images scenario_json ! 0) ! 0)
   \<and> detections (images scenario_json_classified ! 0) ! 0
       = (detections (images scenario_json ! 0) ! 0)\<lparr>classifications :=
            Some [(''1'', 7/10), (''2'', 1/5)]\<rparr>
   \<and> \<not> should_classify scenario_settings (detections (images scenario_json ! 0) ! 1)
   \<and> detections (images scenario_json_classified ! 0) ! 1 = detections (images scenario_json ! 0) ! 1"
proof -
  have a: "(0::nat) < length (images scenario_json)" by (simp add: scenario_json_def)
  have l: "load_image scenario_env (image_path [] (image_file (images scenario_json ! 0)))
       = Some scenario_image"
    by (simp add: scenario_json_def scenario_load)
  have k0: "(0::nat) < length (detections (images scenario_json ! 0))"
    by (simp add: scenario_json_def)
  have k1: "(1::nat) < length (detections (images scenario_json ! 0))"
    by (simp add: scenario_json_def)
  have s0: "should_classify scenario_settings (detections (images scenario_json ! 0) ! 0)"
    using scenario_selected by (simp add: scenario_json_def skip_detection_iff)
  have s1: "\<not> should_classify scenario_settings (detections (images scenario_json ! 0) ! 1)"
    by (simp add: scenario_json_def should_classify_def low_detection_def)
  have r0: "detections (images scenario_json_classified ! 0) ! 0
       = (detections (images scenario_json ! 0) ! 0)\<lparr>classifications :=
            Some [(''1'', 7/10), (''2'', 1/5)]\<rparr>"
    by (simp add: scenario_json_def scenario_json_classified_def scenario_classified_def)
  show ?thesis
    using a l k0 s0 s1 r0 scenario_batch
      selection [OF scenario_batch a l k0] selection [OF scenario_batch a l k1]
    by simp
qed

section \<open>C3: a second run changes nothing\<close>

text \<open>
  Claim C3. When \<open>classify_boxes\<close> has returned, running it again on its result, with the
  same classifier, the same images and the same settings, returns that result
  unchanged. A detection of the result that has a non-empty list of classifications is
  returned as it is by the loop body, whatever the image. (A detection that was given an
  empty list is classified again, to the same empty list.)
\<close>

theorem classify_boxes_idempotent:
  assumes "classify_boxes E j dir S = Returned j'"
  shows "classify_boxes E j' dir S = Returned j'
       \<and> (\<forall>im \<in> set (images j'). \<forall>d \<in> set (detections im).
             (\<exists>cs. classifications d = Some cs \<and> cs \<noteq> []) \<longrightarrow>
             (\<forall>img. classify_detection E S img d = Returned d))"
proof -
  obtain c ims where c: "classification_categories j = Some c"
    and ims: "classify_images E S dir (images j) = Returned ims"
    and j': "j' = j\<lparr>images := ims\<rparr>"
    using assms by (auto simp: classify_boxes_def split: option.splits outcome.splits)
  have "classify_images E S dir ims = Returned ims"
    using ims unfolding classify_images_def
    by (rule for_each_idem[rotated]) (rule classify_image_idem)
  then have "classify_boxes E j' dir S = Returned j'"
    using c j' by (simp add: classify_boxes_def)
  then show ?thesis by (auto simp: classify_detection_classified)
qed

theorem classify_boxes_idempotent_witness:
  "classify_boxes scenario_env scenario_json [] scenario_settings = Returned scenario_json_classified
   \<and> classify_boxes scenario_env scenario_json_classified [] scenario_settings
       = Returned scenario_json_classified
   \<and> classify_detection scenario_env scenario_settings scenario_image scenario_classified
       = Returned scenario_classified"
proof -
  have m: "\<lparr>image_file = ''a.jpg'', detections = [scenario_classified, low_detection]\<rparr>
             \<in> set (images scenario_json_classified)"
    by (simp add: scenario_json_classified_def)
  have c: "\<exists>cs. classifications scenario_classified = Some cs \<and> cs \<noteq> []"
    by (simp add: scenario_classified_def)
  show ?thesis
    using m c scenario_batch classify_boxes_idempotent [OF scenario_batch]
    by fastforce
qed

section \<open>C4: the list of the top classes\<close>

text \<open>
  Claim C4 as stated fails on two counts. The class keys are indices into the outputs
  of the classifier, and nothing in the code compares their number with the vocabulary:
  with a classes file of two names and a classifier of three outputs the key "2" is
  attached and is no key of \<open>classification_categories\<close>. A negative
  \<open>num_annotated_classes\<close> (the command line takes any integer) makes the slice drop
  entries from the end: with -1 and three outputs the list has two entries, not
  \<open>min(-1, 3)\<close>. (The scores of both inputs differ, so every sort gives these lists.)
  Besides, the order among equal scores is the order \<open>np.argsort\<close> gives, which its
  default kind leaves open.
\<close>

theorem top_classes_contract_counterexample:
  "add_classification_categories (\<lambda>f. Some [''lion'', ''zebra''])
       \<lparr>classification_categories = None, images = []\<rparr> ''classes.txt''
     = Returned \<lparr>classification_categories = Some [(''0'', ''lion''), (''1'', ''zebra'')], images = []\<rparr>
   \<and> top_classes stable_argsort 3 [1/10, 1/5, 7/10] = [(''2'', 7/10), (''1'', 1/5), (''0'', 1/10)]
   \<and> ''2'' \<notin> set (map fst [(''0'', ''lion''), (''1'', ''zebra'')])
   \<and> top_classes stable_argsort (- 1) [1/10, 7/10, 1/5] = [(''1'', 7/10), (''2'', 1/5)]
   \<and> int (length (top_classes stable_argsort (- 1) [1/10, 7/10, 1/5]))
        \<noteq> min (- 1) (int (length [1/10, 7/10, 1/5 :: real]))"
  by (simp add: add_classification_categories_def categories_of_def nonblank_def is_space_def
      top_classes_def top_indices_def stable_argsort_def upt_rec py_slice_def slice_bound_def
      digit_char_def)

text \<open>
  Two sorts that meet numpy's contract and order two equal scores differently: from the
  contract alone, ties are not known to come in ascending class index.
\<close>

lemma tie_order_not_fixed:
  "numpy_argsort reversing_argsort
   \<and> top_classes reversing_argsort 2 [1/2, 1/2] = [(''1'', 1/2), (''0'', 1/2)]
   \<and> numpy_argsort stable_argsort
   \<and> top_classes stable_argsort 2 [1/2, 1/2] = [(''0'', 1/2), (''1'', 1/2)]"
  by (simp add: reversing_argsort_ok stable_argsort_ok top_classes_def top_indices_def
      reversing_argsort_def stable_argsort_def upt_rec py_slice_def slice_bound_def digit_char_def)

text \<open>
  Claim C4, amended. For \<open>num_annotated_classes \<ge> 0\<close> and any \<open>np.argsort\<close> that meets
  numpy's contract, the attached list has \<open>min(num_annotated_classes, number of outputs)\<close>
  entries; its scores do not increase; every entry is the pair of a class index, written
  in decimal, and the raw score of that class; the indices are distinct and valid
  indices of the outputs; no class left out has a higher score than a class kept; and
  when the vocabulary was built from at least as many names as the classifier has
  outputs, every class key is a key of the vocabulary. The order among equal scores is
  not stated.
\<close>

theorem top_classes_contract:
  assumes "numpy_argsort asort" and "0 \<le> k"
  shows "length (top_classes asort k p) = min (nat k) (length p)
       \<and> sorted (rev (map snd (top_classes asort k p)))
       \<and> top_classes asort k p = map (\<lambda>i. (format_i i, p ! i)) (top_indices asort k p)
       \<and> distinct (top_indices asort k p)
       \<and> set (top_indices asort k p) \<subseteq> {0..<length p}
       \<and> (\<forall>i \<in> set (top_indices asort k p). \<forall>j < length p.
             j \<notin> set (top_indices asort k p) \<longrightarrow> p ! j \<le> p ! i)
       \<and> (length p \<le> length class_names \<longrightarrow>
             set (map fst (top_classes asort k p)) \<subseteq> set (map fst (categories_of class_names)))"
proof -
  note P = top_indices_props[OF assms, where p = p]
  have tc: "top_classes asort k p = map (\<lambda>i. (format_i i, p ! i)) (top_indices asort k p)"
    by (simp add: top_classes_def)
  have sc: "map snd (top_classes asort k p) = map (\<lambda>i. p ! i) (top_indices asort k p)"
    by (simp add: tc comp_def)
  have ky: "map fst (top_classes asort k p) = map format_i (top_indices asort k p)"
    by (simp add: tc comp_def)
  have v: "set (map fst (top_classes asort k p)) \<subseteq> set (map fst (categories_of class_names))"
    if "length p \<le> length class_names"
  proof -
    have "set (top_indices asort k p) \<subseteq> {0..<length class_names}"
      using P(3) that by auto
    then show ?thesis unfolding ky categories_of_keys by auto
  qed
  show ?thesis
    using P(1) P(2) P(3) P(4) P(5) v by (simp add: tc sc[unfolded tc] comp_def)
qed

theorem top_classes_contract_witness:
  "numpy_argsort stable_argsort \<and> (0::int) \<le> 2
   \<and> top_classes stable_argsort 2 [1/10, 7/10, 1/5] = [(''1'', 7/10), (''2'', 1/5)]
   \<and> length (top_classes stable_argsort 2 [1/10, 7/10, 1/5]) = min (nat 2) (length [1/10, 7/10, 1/5 :: real])
   \<and> sorted (rev (map snd (top_classes stable_argsort 2 [1/10, 7/10, 1/5])))
   \<and> length [1/10, 7/10, 1/5 :: real] \<le> length [''lion'', ''zebra'', ''gnu'']
   \<and> set (map fst (top_classes stable_argsort 2 [1/10, 7/10, 1/5]))
        \<subseteq> set (map fst (categories_of [''lion'', ''zebra'', ''gnu'']))"
proof -
  have k: "(0::int) \<le> 2" by simp
  have l: "length [1/10, 7/10, 1/5 :: real] \<le> length [''lion'', ''zebra'', ''gnu'']" by simp
  show ?thesis
    using k l scenario_top_classes stable_argsort_ok
      top_classes_contract [OF stable_argsort_ok k, of "[1/10, 7/10, 1/5]" "[''lion'', ''zebra'', ''gnu'']"]
    by (simp add: categories_of_def upt_rec digit_char_def)
qed

section \<open>C5: the scenario of the specification\<close>

text \<open>
  Claim C5. In an image of 400 by 300 pixels the detection with box
  \<open>[0.25, 0.2, 0.25, 0.3]\<close>, category "1" and confidence 0.9 is selected under the
  threshold 0.85 and the whitelist \<open>["1"]\<close>; its box is 90 pixels high and 100 wide, the
  target side is 160, the offsets are 35 and 30 and the crop is rows 25 to 185, columns
  70 to 230, inside the image. When the classifier answers \<open>[0.1, 0.7, 0.2]\<close> on that
  crop and two classes are kept, the detection gets \<open>[["1", 0.7], ["2", 0.2]]\<close>, whatever
  sort \<open>np.argsort\<close> uses (the three scores differ).
\<close>

theorem concrete_scenario:
  assumes "numpy_argsort (argsort E)"
    and "image_height img = 300" and "image_width img = 400"
    and "sess_run E (crop_image (pixel_rows img) (25, 70, 185, 230)) = Some [1/10, 7/10, 1/5]"
  shows "\<not> skip_detection scenario_settings scenario_detection
       \<and> box_coords_abs 300 400 (bbox scenario_detection) = (60, 100, 150, 200)
       \<and> bbox_sizes (box_coords_abs 300 400 (bbox scenario_detection)) = (90, 100)
       \<and> target_side (padding_factor scenario_settings) (90, 100) = 160
       \<and> offsets (padding_factor scenario_settings) (90, 100) = (35, 30)
       \<and> crop_box (padding_factor scenario_settings) 300 400 (bbox scenario_detection)
           = (25, 70, 185, 230)
       \<and> crop_within_image 300 400 (25, 70, 185, 230)
       \<and> classify_detection E scenario_settings img scenario_detection
           = Returned (scenario_detection\<lparr>classifications := Some [(''1'', 7/10), (''2'', 1/5)]\<rparr>)"
proof -
  have d: "distinct [1/10, 7/10, 1/5 :: real]" by simp
  have k: "num_annotated_classes scenario_settings = 2"
    by (simp add: scenario_settings_def)
  have t: "top_classes (argsort E) 2 [1/10, 7/10, 1/5] = [(''1'', 7/10), (''2'', 1/5)]"
    using top_classes_unique[OF assms(1) d, of 2] scenario_top_classes by simp
  have c: "classify_detection E scenario_settings img scenario_detection
           = Returned (scenario_detection\<lparr>classifications := Some [(''1'', 7/10), (''2'', 1/5)]\<rparr>)"
    using t by (simp add: classify_detection_def cropped_img_def scenario_selected assms(2,3,4) scenario_crop k)
  have g: "box_coords_abs 300 400 (bbox scenario_detection) = (60, 100, 150, 200)"
    by (simp add: box_coords_abs_def box_coords_def scenario_detection_def)
  have s: "bbox_sizes (box_coords_abs 300 400 (bbox scenario_detection)) = (90, 100)"
    by (simp add: g bbox_sizes_def)
  have pf: "padding_factor scenario_settings = 16/10"
    by (simp add: scenario_settings_def default_settings_def PADDING_FACTOR_def)
  have ts: "target_side (padding_factor scenario_settings) (90, 100) = 160"
    by (simp add: pf target_side_def)
  have os: "offsets (padding_factor scenario_settings) (90, 100) = (35, 30)"
    by (simp add: offsets_def ts)
  have w: "crop_within_image 300 400 (25, 70, 185, 230)"
    by (simp add: crop_within_image_def)
  show ?thesis using scenario_selected scenario_crop c g s ts os w by simp
qed

theorem concrete_scenario_witness:
  "classify_detection scenario_env scenario_settings scenario_image scenario_detection
   = Returned \<lparr>category = ''1'', conf = 9/10, bbox = (1/4, 1/5, 1/4, 3/10),
               classifications = Some [(''1'', 7/10), (''2'', 1/5)]\<rparr>"
proof -
  have a: "numpy_argsort (argsort scenario_env)"
    by (simp add: scenario_env_def stable_argsort_ok)
  have h: "image_height scenario_image = 300" and w: "image_width scenario_image = 400"
    by (simp_all add: scenario_image_def)
  have s: "sess_run scenario_env (crop_image (pixel_rows scenario_image) (25, 70, 185, 230))
      = Some [1/10, 7/10, 1/5]"
    by (simp add: scenario_env_def scenario_image_def scenario_crop_image list_all_iff)
  show ?thesis
    using concrete_scenario [OF a h w s] by (simp add: scenario_detection_def)
qed

section \<open>C6: the crop and the unpadded box\<close>

text \<open>
  Claim C6 as stated (the integer crop contains the unpadded box, and is in neither
  dimension smaller than it) fails where \<open>astype(int)\<close> cuts the far edge: with padding
  factor 1 the box \<open>[0, 0, 0.75, 0.75]\<close> in an image of 10 by 10 pixels is 7.5 pixels high
  and wide and lies inside the image, and its crop is \<open>(0, 0, 7, 7)\<close>. With the default
  padding factor a box of half a pixel gets the empty crop \<open>(0, 0, 0, 0)\<close>. (All numbers of
  the first input are doubles, and float64 gives the same crops for both.)
\<close>

theorem crop_contains_box_counterexample:
  "box_coords_abs 10 10 (0, 0, 3/4, 3/4) = (0, 0, 15/2, 15/2)
   \<and> bbox_sizes (box_coords_abs 10 10 (0, 0, 3/4, 3/4)) = (15/2, 15/2)
   \<and> crop_box 1 10 10 (0, 0, 3/4, 3/4) = (0, 0, 7, 7)
   \<and> crop_sizes (crop_box 1 10 10 (0, 0, 3/4, 3/4)) = (7, 7)
   \<and> real_of_int (fst (crop_sizes (crop_box 1 10 10 (0, 0, 3/4, 3/4))))
       < fst (bbox_sizes (box_coords_abs 10 10 (0, 0, 3/4, 3/4)))
   \<and> crop_box PADDING_FACTOR 10 10 (0, 0, 1/20, 1/20) = (0, 0, 0, 0)"
  by (simp add: crop_box_explicit PADDING_FACTOR_def box_coords_abs_def box_coords_def
      bbox_sizes_def crop_sizes_def)

text \<open>
  Claim C6, amended. In the float64 arithmetic of the code, for a box of non-negative
  width and height whose numbers are doubles, a padding factor of at least 1, and far
  corners of the padded box below \<open>2^63\<close>: the padded box, before clamping and the cast,
  contains the pixel-space box as the code computes it (\<open>box_coords_abs\<close>); the near corner
  of the crop is not beyond the near corner of that box clamped at 0; and the far corner
  of the crop is not before the far corner of that box, clamped at 0 and cut to an
  integer. So the crop falls short of the computed box by less than one pixel, the
  fraction that \<open>astype(int)\<close> drops. (The computed box itself carries the rounding of the
  products and sums.)
\<close>

theorem crop_contains_box:
  assumes "float_rounding rnd" and "1 \<le> pf" and "0 \<le> w" and "0 \<le> h"
    and "rnd x = x" and "rnd y = y"
    and "box_coords_abs_fl rnd H W (x, y, w, h) = (ymin, xmin, ymax, xmax)"
    and "crop_boxes_fl rnd pf (ymin, xmin, ymax, xmax) = (a, b, c, d)"
    and "c < 2 ^ 63" and "d < 2 ^ 63"
    and "crop_box_fl rnd pf H W (x, y, w, h) = (y0, x0, y1, x1)"
  shows "a \<le> ymin \<and> b \<le> xmin \<and> ymax \<le> c \<and> xmax \<le> d
       \<and> real_of_int y0 \<le> max 0 ymin \<and> real_of_int x0 \<le> max 0 xmin
       \<and> \<lfloor>max 0 ymax\<rfloor> \<le> y1 \<and> \<lfloor>max 0 xmax\<rfloor> \<le> x1
       \<and> max 0 ymax - 1 < real_of_int y1 \<and> max 0 xmax - 1 < real_of_int x1"
proof -
  note mono = float_rounding_mono[OF assms(1)]
  note idem = float_rounding_idem[OF assms(1)]
  have abs: "ymin = rnd (y * real H)" "xmin = rnd (x * real W)"
    "ymax = rnd (rnd (y + h) * real H)" "xmax = rnd (rnd (x + w) * real W)"
    using assms(7) by (simp_all add: box_coords_abs_fl_def box_coords_fl_def)
  have r: "rnd ymin = ymin" "rnd xmin = xmin" "rnd ymax = ymax" "rnd xmax = xmax"
    by (simp_all add: abs idem)
  have "y \<le> rnd (y + h)" using mono[of y "y + h"] assms(4,6) by simp
  then have "y * real H \<le> rnd (y + h) * real H" by (intro mult_right_mono) simp_all
  then have yy: "ymin \<le> ymax" unfolding abs by (rule mono)
  have "x \<le> rnd (x + w)" using mono[of x "x + w"] assms(3,5) by simp
  then have "x * real W \<le> rnd (x + w) * real W" by (intro mult_right_mono) simp_all
  then have xx: "xmin \<le> xmax" unfolding abs by (rule mono)
  define hp where "hp = rnd (ymax - ymin)"
  define wp where "wp = rnd (xmax - xmin)"
  have hp0: "0 \<le> hp" and wp0: "0 \<le> wp"
    using yy xx float_rounding_nonneg[OF assms(1)] by (simp_all add: hp_def wp_def)
  have rhw: "rnd hp = hp" "rnd wp = wp" by (simp_all add: hp_def wp_def idem)
  obtain oh ow where o: "offsets_fl rnd pf (hp, wp) = (oh, ow)"
    by (cases "offsets_fl rnd pf (hp, wp)")
  have oh0: "0 \<le> oh" and ow0: "0 \<le> ow"
    using offsets_fl_nonneg[OF assms(1,2) rhw hp0 wp0] o by simp_all
  have cb: "a = rnd (ymin + (- oh))" "b = rnd (xmin + (- ow))"
    "c = rnd (ymax + oh)" "d = rnd (xmax + ow)"
    using assms(8) o by (simp_all add: crop_boxes_fl_def bbox_sizes_fl_def hp_def wp_def)
  have a: "a \<le> ymin" using mono[of "ymin + (- oh)" ymin] oh0 by (simp add: cb r)
  have b: "b \<le> xmin" using mono[of "xmin + (- ow)" xmin] ow0 by (simp add: cb r)
  have c: "ymax \<le> c" using mono[of ymax "ymax + oh"] oh0 by (simp add: cb r)
  have d: "xmax \<le> d" using mono[of xmax "xmax + ow"] ow0 by (simp add: cb r)
  have cr: "y0 = astype_int64 (max 0 a)" "x0 = astype_int64 (max 0 b)"
    "y1 = astype_int64 (max 0 c)" "x1 = astype_int64 (max 0 d)"
    using assms(11) assms(7) assms(8) by (simp_all add: crop_box_fl_def)
  have l1: "real_of_int y0 \<le> max 0 ymin"
    unfolding cr using astype_int64_le[of "max 0 a"] a by simp
  have l2: "real_of_int x0 \<le> max 0 xmin"
    unfolding cr using astype_int64_le[of "max 0 b"] b by simp
  have "y1 = \<lfloor>max 0 c\<rfloor>" unfolding cr using assms(9) by (intro astype_int64_in_range) simp_all
  then have u1: "\<lfloor>max 0 ymax\<rfloor> \<le> y1" using c by (simp add: floor_mono)
  have "x1 = \<lfloor>max 0 d\<rfloor>" unfolding cr using assms(10) by (intro astype_int64_in_range) simp_all
  then have u2: "\<lfloor>max 0 xmax\<rfloor> \<le> x1" using d by (simp add: floor_mono)
  have v1: "max 0 ymax - 1 < real_of_int y1" using u1 by linarith
  have v2: "max 0 xmax - 1 < real_of_int x1" using u2 by linarith
  show ?thesis using a b c d l1 l2 u1 u2 v1 v2 by simp
qed

theorem crop_contains_box_witness:
  "crop_box_fl (\<lambda>a. a) (3/2) 16 16 (1/8, 1/8, 1/2, 1/4) = (0, 0, 10, 12)
   \<and> real_of_int 0 \<le> max 0 2 \<and> \<lfloor>max 0 (6::real)\<rfloor> \<le> 10 \<and> \<lfloor>max 0 (10::real)\<rfloor> \<le> 12
   \<and> float_rounding nearest_eighth
   \<and> nearest_eighth (1/8) = 1/8
   \<and> box_coords_abs_fl nearest_eighth 10 10 (1/8, 1/8, 3/8, 1/4) = (5/4, 5/4, 15/4, 5)
   \<and> crop_boxes_fl nearest_eighth (3/2) (5/4, 5/4, 15/4, 5) = (- 3/8, 1/4, 43/8, 6)
   \<and> crop_box_fl nearest_eighth (3/2) 10 10 (1/8, 1/8, 3/8, 1/4) = (0, 0, 5, 6)
   \<and> real_of_int 0 \<le> max 0 (5/4) \<and> \<lfloor>max 0 (15/4 :: real)\<rfloor> \<le> 5 \<and> \<lfloor>max 0 (5::real)\<rfloor> \<le> 6
   \<and> max 0 (15/4) - 1 < real_of_int 5"
proof -
  have p: "(1::real) \<le> 3/2" and q2: "(0::real) \<le> 1/2" and q4: "(0::real) \<le> 1/4"
    and q3: "(0::real) \<le> 3/8" by simp_all
  have i: "(\<lambda>a::real. a) (1/8) = 1/8" by simp
  have e: "nearest_eighth (1/8) = 1/8" by (simp add: nearest_eighth_def)
  have r1: "(10::real) < 2 ^ 63" "(12::real) < 2 ^ 63" "(43/8 :: real) < 2 ^ 63" "(6::real) < 2 ^ 63"
    by simp_all
  show ?thesis
    using e float_rounding_nearest_eighth crop_fl_exact_example crop_fl_eighth_example
      crop_contains_box [OF float_rounding_exact p q2 q4 i i crop_fl_exact_example(1)
        crop_fl_exact_example(2) r1(1) r1(2) crop_fl_exact_example(3)]
      crop_contains_box [OF float_rounding_nearest_eighth p q3 q4 e e crop_fl_eighth_example(1)
        crop_fl_eighth_example(3) r1(3) r1(4) crop_fl_eighth_example(4)]
    by simp
qed

section \<open>C7: a box with no area\<close>

text \<open>
  Claim C7 as stated (height 0 or width 0 gives target side 0 and no expansion) fails:
  the target side is the padding factor times the larger of the two sizes. The box
  \<open>[0.25, 0.2, 0.25, 0]\<close> in an image of 400 by 300 pixels has height 0 and width 100; its
  target side is 160 and the crop grows from the line \<open>y = 60\<close> to the rows 0 to 140
  (float64 gives the same numbers at this input).
\<close>

theorem degenerate_box_counterexample:
  "box_coords_abs 300 400 (1/4, 1/5, 1/4, 0) = (60, 100, 60, 200)
   \<and> bbox_sizes (box_coords_abs 300 400 (1/4, 1/5, 1/4, 0)) = (0, 100)
   \<and> target_side PADDING_FACTOR (bbox_sizes (box_coords_abs 300 400 (1/4, 1/5, 1/4, 0))) = 160
   \<and> crop_box PADDING_FACTOR 300 400 (1/4, 1/5, 1/4, 0) = (0, 70, 140, 230)"
  by (simp add: crop_box_explicit PADDING_FACTOR_def bbox_sizes_def box_coords_abs_def
      box_coords_def target_side_def)

text \<open>
  Claim C7, amended. In the float64 arithmetic of the code: when the height and the
  width in pixels are both 0, the target side and both offsets are 0 and the crop is
  the box itself, clamped at 0 and cast to integers. When only one of them is 0, the
  target side is the padding factor times the other size; the offset on the axis of
  size 0 is half the target side, and the offset on the other axis is half of the
  target side less that size, which is 0 when the padding factor is 1.
\<close>

theorem degenerate_box:
  assumes "float_rounding rnd"
    and "box_coords_abs_fl rnd H W b = (ymin, xmin, ymax, xmax)"
    and "bbox_sizes_fl rnd (ymin, xmin, ymax, xmax) = (hp, wp)"
  shows "(hp = 0 \<and> wp = 0 \<longrightarrow>
            target_side_fl rnd pf (hp, wp) = 0 \<and> offsets_fl rnd pf (hp, wp) = (0, 0) \<and>
            crop_boxes_fl rnd pf (ymin, xmin, ymax, xmax) = (ymin, xmin, ymax, xmax) \<and>
            crop_box_fl rnd pf H W b =
              (astype_int64 (max 0 ymin), astype_int64 (max 0 xmin),
               astype_int64 (max 0 ymax), astype_int64 (max 0 xmax)))
       \<and> (hp = 0 \<and> 0 \<le> wp \<longrightarrow>
            target_side_fl rnd pf (hp, wp) = rnd (pf * wp) \<and>
            offsets_fl rnd pf (hp, wp)
              = (rnd (rnd (pf * wp) / 2), rnd (rnd (rnd (pf * wp) - wp) / 2)) \<and>
            (pf = 1 \<longrightarrow> offsets_fl rnd pf (hp, wp) = (rnd (wp / 2), 0)))
       \<and> (wp = 0 \<and> 0 \<le> hp \<longrightarrow>
            target_side_fl rnd pf (hp, wp) = rnd (pf * hp) \<and>
            offsets_fl rnd pf (hp, wp)
              = (rnd (rnd (rnd (pf * hp) - hp) / 2), rnd (rnd (pf * hp) / 2)) \<and>
            (pf = 1 \<longrightarrow> offsets_fl rnd pf (hp, wp) = (0, rnd (hp / 2))))"
proof -
  note idem = float_rounding_idem[OF assms(1)]
  note zero = float_rounding_zero[OF assms(1)]
  have r: "rnd ymin = ymin" "rnd xmin = xmin" "rnd ymax = ymax" "rnd xmax = xmax"
    using assms(2) by (auto simp: box_coords_abs_fl_def box_coords_fl_def idem split: prod.splits)
  have rhw: "rnd hp = hp" "rnd wp = wp"
    using assms(3) by (auto simp: bbox_sizes_fl_def idem)
  have both: "target_side_fl rnd pf (hp, wp) = 0 \<and> offsets_fl rnd pf (hp, wp) = (0, 0) \<and>
      crop_boxes_fl rnd pf (ymin, xmin, ymax, xmax) = (ymin, xmin, ymax, xmax) \<and>
      crop_box_fl rnd pf H W b =
        (astype_int64 (max 0 ymin), astype_int64 (max 0 xmin),
         astype_int64 (max 0 ymax), astype_int64 (max 0 xmax))"
    if z: "hp = 0" "wp = 0"
  proof -
    have t: "target_side_fl rnd pf (hp, wp) = 0" by (simp add: target_side_fl_def z zero)
    have o: "offsets_fl rnd pf (hp, wp) = (0, 0)"
      using t by (simp add: offsets_fl_def z zero)
    have c: "crop_boxes_fl rnd pf (ymin, xmin, ymax, xmax) = (ymin, xmin, ymax, xmax)"
      using o assms(3) by (simp add: crop_boxes_fl_def r)
    show ?thesis using t o c assms(2) by (simp add: crop_box_fl_def)
  qed
  have h0: "target_side_fl rnd pf (hp, wp) = rnd (pf * wp) \<and>
      offsets_fl rnd pf (hp, wp) = (rnd (rnd (pf * wp) / 2), rnd (rnd (rnd (pf * wp) - wp) / 2)) \<and>
      (pf = 1 \<longrightarrow> offsets_fl rnd pf (hp, wp) = (rnd (wp / 2), 0))"
    if z: "hp = 0" "0 \<le> wp"
    using z by (simp add: target_side_fl_def offsets_fl_def idem zero rhw)
  have w0: "target_side_fl rnd pf (hp, wp) = rnd (pf * hp) \<and>
      offsets_fl rnd pf (hp, wp) = (rnd (rnd (rnd (pf * hp) - hp) / 2), rnd (rnd (pf * hp) / 2)) \<and>
      (pf = 1 \<longrightarrow> offsets_fl rnd pf (hp, wp) = (0, rnd (hp / 2)))"
    if z: "wp = 0" "0 \<le> hp"
    using z by (simp add: target_side_fl_def offsets_fl_def idem zero rhw)
  show ?thesis using both h0 w0 by blast
qed

theorem degenerate_box_witness:
  "float_rounding (\<lambda>a. a)
   \<and> box_coords_abs_fl (\<lambda>a. a) 300 400 (1/4, 1/5, 0, 0) = (60, 100, 60, 100)
   \<and> bbox_sizes_fl (\<lambda>a. a) (60, 100, 60, 100) = (0, 0)
   \<and> target_side_fl (\<lambda>a. a) PADDING_FACTOR (0, 0) = 0
   \<and> offsets_fl (\<lambda>a. a) PADDING_FACTOR (0, 0) = (0, 0)
   \<and> crop_box_fl (\<lambda>a. a) PADDING_FACTOR 300 400 (1/4, 1/5, 0, 0) = (60, 100, 60, 100)
   \<and> box_coords_abs_fl (\<lambda>a. a) 300 400 (1/4, 1/5, 1/4, 0) = (60, 100, 60, 200)
   \<and> bbox_sizes_fl (\<lambda>a. a) (60, 100, 60, 200) = (0, 100)
   \<and> target_side_fl (\<lambda>a. a) PADDING_FACTOR (0, 100) = 160
   \<and> offsets_fl (\<lambda>a. a) PADDING_FACTOR (0, 100) = (80, 30)
   \<and> target_side_fl (\<lambda>a. a) 1 (0, 100) = 100
   \<and> offsets_fl (\<lambda>a. a) 1 (0, 100) = (50, 0)"
  using float_rounding_exact degenerate_examples
    degenerate_box [OF float_rounding_exact degenerate_examples(1) degenerate_examples(2),
      of PADDING_FACTOR]
    degenerate_box [OF float_rounding_exact degenerate_examples(3) degenerate_examples(4),
      of PADDING_FACTOR]
    degenerate_box [OF float_rounding_exact degenerate_examples(3) degenerate_examples(4), of 1]
  by (simp add: PADDING_FACTOR_def astype_int64_def astype_int_def)

section \<open>C8: the vocabulary is built once\<close>

text \<open>
  Claim C8. When the JSON object already has the key \<open>classification_categories\<close>,
  \<open>add_classification_categories\<close> returns the object as it is: the mapping is not
  overwritten, and the classes file is not read (the result is the same for every reader
  and every file name, also for a file that cannot be opened).
\<close>

theorem add_classification_categories_noop:
  assumes "classification_categories json = Some cats"
  shows "add_classification_categories read_lines json classes_file = Returned json
       \<and> classification_categories json = Some cats"
  using assms by (simp add: add_classification_categories_def)

theorem add_classification_categories_noop_witness:
  "classification_categories \<lparr>classification_categories = Some [(''0'', ''lion'')], images = []\<rparr>
     = Some [(''0'', ''lion'')]
   \<and> add_classification_categories (\<lambda>f. Some [''zebra'', ''gnu''])
       \<lparr>classification_categories = Some [(''0'', ''lion'')], images = []\<rparr> ''classes.txt''
     = Returned \<lparr>classification_categories = Some [(''0'', ''lion'')], images = []\<rparr>
   \<and> add_classification_categories (\<lambda>f. None)
       \<lparr>classification_categories = Some [(''0'', ''lion'')], images = []\<rparr> ''classes.txt''
     = Returned \<lparr>classification_categories = Some [(''0'', ''lion'')], images = []\<rparr>
   \<and> add_classification_categories (\<lambda>f. Some [''zebra'', '' '', ''gnu''])
       \<lparr>classification_categories = None, images = []\<rparr> ''classes.txt''
     = Returned \<lparr>classification_categories = Some [(''0'', ''zebra''), (''1'', ''gnu'')], images = []\<rparr>"
proof -
  have h: "classification_categories \<lparr>classification_categories = Some [(''0'', ''lion'')], images = []\<rparr>
     = Some [(''0'', ''lion'')]" by simp
  have a: "add_classification_categories (\<lambda>f. Some [''zebra'', '' '', ''gnu''])
       \<lparr>classification_categories = None, images = []\<rparr> ''classes.txt''
     = Returned \<lparr>classification_categories = Some [(''0'', ''zebra''), (''1'', ''gnu'')], images = []\<rparr>"
    by (simp add: add_classification_categories_def categories_of_def nonblank_def is_space_def
        digit_char_def upt_rec)
  show ?thesis
    using h a
      add_classification_categories_noop [OF h, of "\<lambda>f. Some [''zebra'', ''gnu'']" "''classes.txt''"]
      add_classification_categories_noop [OF h, of "\<lambda>f. None" "''classes.txt''"]
    by simp
qed

section \<open>C9: an image that fails to load\<close>

text \<open>
  Claim C9 says that the detections of an image that fails to load are left with absent
  or empty classifications. They are left as they are: in the batch below the missing
  image holds a detection that carries the result of an earlier run, and after the call
  it still carries \<open>[["0", 0.5]]\<close>.
\<close>

theorem load_failure_counterexample:
  "load_image scenario_env (image_path [] ''missing.jpg'') = None
   \<and> image_file (images missing_json ! 0) = ''missing.jpg''
   \<and> detections (images missing_json ! 0) ! 0 = earlier_detection
   \<and> classify_boxes scenario_env missing_json [] scenario_settings = Returned missing_json
   \<and> classifications (detections (images missing_json ! 0) ! 0) = Some [(''0'', 1/2)]"
proof -
  have a: "image_file (images missing_json ! 0) = ''missing.jpg''"
    and b: "detections (images missing_json ! 0) ! 0 = earlier_detection"
    by (simp_all add: missing_json_def)
  have c: "classify_boxes scenario_env missing_json [] scenario_settings = Returned missing_json"
    by (simp add: classify_boxes_def classify_images_def classify_image_def missing_json_def
        scenario_load)
  have d: "classifications (detections (images missing_json ! 0) ! 0) = Some [(''0'', 1/2)]"
    by (simp add: b earlier_detection_def)
  show ?thesis using a b c d scenario_load(4) by simp
qed

text \<open>
  Claim C9, amended. When an image of the batch fails to load and the images before it
  were processed without an exception, the loop body returns that image's record as it
  is and raises nothing; in the object the caller holds afterwards that image and all of
  its detections are exactly as they were (a detection without classifications still
  has none, one that carries a list keeps it); and the images after it are processed as
  they would be on their own. In the batch of three images with the second one missing,
  the first and the third are classified.
\<close>

theorem load_failure_isolated:
  assumes "classification_categories j = Some c"
    and "images j = before @ im # rest"
    and "load_image E (image_path dir (image_file im)) = None"
    and "classify_images E S dir before = Returned before'"
  shows "classify_image E S dir im = Returned im
       \<and> classify_boxes E j dir S =
           (case classify_images E S dir rest of
              Returned rest' \<Rightarrow> Returned (j\<lparr>images := before' @ im # rest'\<rparr>)
            | Raised e rest' \<Rightarrow> Raised e (j\<lparr>images := before' @ im # rest'\<rparr>))
       \<and> images (state_of (classify_boxes E j dir S)) ! length before = im
       \<and> detections (images (state_of (classify_boxes E j dir S)) ! length before)
           = detections im"
proof -
  have a: "classify_image E S dir im = Returned im"
    using assms(3) by (simp add: classify_image_def)
  have "classify_images E S dir (before @ im # rest) =
          (case classify_images E S dir rest of
             Returned rest' \<Rightarrow> Returned (before' @ im # rest')
           | Raised e rest' \<Rightarrow> Raised e (before' @ im # rest'))"
    using assms(4) a unfolding classify_images_def by (rule for_each_skip)
  then have b: "classify_boxes E j dir S =
           (case classify_images E S dir rest of
              Returned rest' \<Rightarrow> Returned (j\<lparr>images := before' @ im # rest'\<rparr>)
            | Raised e rest' \<Rightarrow> Raised e (j\<lparr>images := before' @ im # rest'\<rparr>))"
    using assms(1,2) by (simp add: classify_boxes_def split: outcome.splits)
  have l: "length before' = length before"
    using assms(4) unfolding classify_images_def by (rule for_each_length)
  have c: "images (state_of (classify_boxes E j dir S)) ! length before = im"
    unfolding b using l by (simp add: state_of_def nth_append split: outcome.splits)
  show ?thesis using a b c by simp
qed

theorem load_failure_isolated_witness:
  "load_image scenario_env (image_path [] ''missing.jpg'') = None
   \<and> classify_boxes scenario_env scenario_json [] scenario_settings =
     Returned (scenario_json\<lparr>images :=
        [\<lparr>image_file = ''a.jpg'', detections = [scenario_classified, low_detection]\<rparr>,
         \<lparr>image_file = ''missing.jpg'', detections = [scenario_detection]\<rparr>,
         \<lparr>image_file = ''c.jpg'', detections = [earlier_detection, scenario_classified]\<rparr>]\<rparr>)"
proof -
  have c: "classification_categories scenario_json
             = Some [(''0'', ''lion''), (''1'', ''zebra''), (''2'', ''gnu'')]"
    by (simp add: scenario_json_def)
  have i: "images scenario_json =
      [\<lparr>image_file = ''a.jpg'', detections = [scenario_detection, low_detection]\<rparr>]
      @ \<lparr>image_file = ''missing.jpg'', detections = [scenario_detection]\<rparr>
      # [\<lparr>image_file = ''c.jpg'', detections = [earlier_detection, scenario_detection]\<rparr>]"
    by (simp add: scenario_json_def)
  have l: "load_image scenario_env (image_path []
      (image_file \<lparr>image_file = ''missing.jpg'', detections = [scenario_detection]\<rparr>)) = None"
    by (simp add: scenario_load)
  have b: "classify_images scenario_env scenario_settings []
      [\<lparr>image_file = ''a.jpg'', detections = [scenario_detection, low_detection]\<rparr>]
      = Returned [\<lparr>image_file = ''a.jpg'', detections = [scenario_classified, low_detection]\<rparr>]"
    by (simp add: classify_images_def classify_image_def classify_detections_def
        scenario_load scenario_step low_step)
  have r: "classify_images scenario_env scenario_settings []
      [\<lparr>image_file = ''c.jpg'', detections = [earlier_detection, scenario_detection]\<rparr>]
      = Returned [\<lparr>image_file = ''c.jpg'', detections = [earlier_detection, scenario_classified]\<rparr>]"
    by (simp add: classify_images_def classify_image_def classify_detections_def
        scenario_load scenario_step earlier_step)
  show ?thesis
    using load_failure_isolated [OF c i l b] r by (simp add: scenario_load)
qed

section \<open>C10: an exception of the classifier\<close>

text \<open>
  Claim C10. When the classifier raises on a detection that is not skipped, nothing in
  \<open>classify_boxes\<close> catches the exception: the call ends with it. The object the caller
  holds then has the images and detections before the failing one updated, the failing
  detection unchanged (its \<open>classifications\<close> were not assigned), and the remaining
  detections of the image and all remaining images untouched.
\<close>

theorem classifier_exception_propagates:
  assumes "classification_categories j = Some c"
    and "images j = before @ im # rest"
    and "classify_images E S dir before = Returned before'"
    and "load_image E (image_path dir (image_file im)) = Some img"
    and "detections im = ds1 @ d # ds2"
    and "classify_detections E S img ds1 = Returned ds1'"
    and "\<not> skip_detection S d"
    and "sess_run E (cropped_img S img d) = None"
  shows "classify_boxes E j dir S =
           Raised ClassifierError
             (j\<lparr>images := before' @ im\<lparr>detections := ds1' @ d # ds2\<rparr> # rest\<rparr>)"
proof -
  have d: "classify_detection E S img d = Raised ClassifierError d"
    using assms(7,8) by (simp add: classify_detection_def)
  have "classify_detections E S img (ds1 @ d # ds2) = Raised ClassifierError (ds1' @ d # ds2)"
    using assms(6) d unfolding classify_detections_def by (rule for_each_raise)
  then have "classify_image E S dir im = Raised ClassifierError (im\<lparr>detections := ds1' @ d # ds2\<rparr>)"
    using assms(4,5) by (simp add: classify_image_def)
  then have "classify_images E S dir (before @ im # rest)
      = Raised ClassifierError (before' @ im\<lparr>detections := ds1' @ d # ds2\<rparr> # rest)"
    using assms(3) unfolding classify_images_def by (intro for_each_raise)
  then show ?thesis using assms(1,2) by (simp add: classify_boxes_def)
qed

theorem classifier_exception_propagates_witness:
  "\<not> skip_detection scenario_settings degenerate_detection
   \<and> sess_run scenario_env (cropped_img scenario_settings scenario_image degenerate_detection) = None
   \<and> classify_boxes scenario_env failing_json [] scenario_settings =
       Raised ClassifierError (failing_json\<lparr>images :=
         [\<lparr>image_file = ''a.jpg'', detections = [scenario_classified]\<rparr>,
          \<lparr>image_file = ''b.jpg'',
           detections = [scenario_classified, degenerate_detection, scenario_detection]\<rparr>,
          \<lparr>image_file = ''c.jpg'', detections = [scenario_detection]\<rparr>]\<rparr>)"
proof -
  have c: "classification_categories failing_json
             = Some [(''0'', ''lion''), (''1'', ''zebra''), (''2'', ''gnu'')]"
    by (simp add: failing_json_def)
  have i: "images failing_json =
      [\<lparr>image_file = ''a.jpg'', detections = [scenario_detection]\<rparr>]
      @ \<lparr>image_file = ''b.jpg'',
          detections = [scenario_detection, degenerate_detection, scenario_detection]\<rparr>
      # [\<lparr>image_file = ''c.jpg'', detections = [scenario_detection]\<rparr>]"
    by (simp add: failing_json_def)
  have b: "classify_images scenario_env scenario_settings []
      [\<lparr>image_file = ''a.jpg'', detections = [scenario_detection]\<rparr>]
      = Returned [\<lparr>image_file = ''a.jpg'', detections = [scenario_classified]\<rparr>]"
    by (simp add: classify_images_def classify_image_def classify_detections_def
        scenario_load scenario_step)
  have l: "load_image scenario_env (image_path [] (image_file \<lparr>image_file = ''b.jpg'',
          detections = [scenario_detection, degenerate_detection, scenario_detection]\<rparr>))
        = Some scenario_image"
    by (simp add: scenario_load)
  have ds: "detections \<lparr>image_file = ''b.jpg'',
          detections = [scenario_detection, degenerate_detection, scenario_detection]\<rparr>
        = [scenario_detection] @ degenerate_detection # [scenario_detection]"
    by simp
  have d1: "classify_detections scenario_env scenario_settings scenario_image [scenario_detection]
        = Returned [scenario_classified]"
    by (simp add: classify_detections_def scenario_step)
  have s: "sess_run scenario_env (cropped_img scenario_settings scenario_image degenerate_detection)
        = None"
    by (simp add: degenerate_cropped scenario_env_def)
  show ?thesis
    using degenerate_selected s
      classifier_exception_propagates [OF c i b l ds d1 degenerate_selected s]
    by simp
qed

end
